theory Spec2Isabelle
  imports Main
begin

section \<open>The durable store\<close>

text \<open>
  The server keeps its durable state in SQLite tables (\<^verbatim>\<open>createTables\<close> in the database
  module).  Each table is a list of rows in rowid order; \<^verbatim>\<open>database.get\<close> returns the first
  row that matches (\<open>find\<close>), \<^verbatim>\<open>database.all\<close> all of them (\<open>filter\<close>).  Columns that no
  modelled operation reads are left out (among them the \<^verbatim>\<open>last_active\<close> bookkeeping
  timestamps and \<^verbatim>\<open>chatroom_members.join_time\<close>).  SQLite integers 0/1 used as flags are
  booleans, nullable columns are options, timestamps are milliseconds as integers, and a
  JavaScript string is a list of code units.  The type \<open>char\<close> has 256 values, so the
  model speaks about the strings whose code units are below 256; no modelled operation
  treats a larger code unit differently from a letter.
\<close>

type_synonym time = int

record user_row =
  u_uid :: string
  u_nickname :: string
  u_avatar_url :: "string option"

record anon_row =
  au_uid :: string
  au_chatroom_id :: string
  au_nickname :: string
  au_avatar_url :: "string option"
  au_mute_until :: "int option"
  au_is_active :: bool
  au_join_time :: time

record chatroom_row =
  cr_room_id :: string
  cr_name :: string
  cr_password_hash :: "string option"
  cr_creator_uid :: string
  cr_is_active :: bool
  cr_created_at :: time

record admin_row =
  ca_chatroom_id :: string
  ca_user_uid :: string
  ca_granted_by :: string

record message_row =
  msg_id :: nat
  msg_message_id :: string
  msg_chatroom_id :: string
  msg_sender_uid :: string
  msg_sender_type :: string
  msg_content :: string
  msg_message_type :: "string option"
  msg_image_url :: "string option"
  msg_reply_to_message_id :: "nat option"
  msg_bilibili_bv :: "string option"
  msg_markdown_content :: "string option"
  msg_file_id :: "string option"
  msg_file_name :: "string option"
  msg_file_size :: "int option"
  msg_file_expiry :: "int option"
  msg_is_deleted :: bool
  msg_created_at :: time

record mute_row =
  mu_chatroom_id :: string
  mu_user_uid :: string
  mu_muted_by :: string
  mu_reason :: string
  mu_mute_until :: int
  mu_is_active :: bool
  mu_created_at :: time

datatype member_status = Online | Offline | LeftRoom

record member_row =
  cm_chatroom_id :: string
  cm_user_uid :: string
  cm_user_type :: string
  cm_nickname :: string
  cm_avatar_url :: "string option"
  cm_status :: member_status
  cm_is_active :: bool

record file_row =
  f_file_id :: string
  f_stored_name :: string
  f_message_id :: "string option"
  f_is_expired :: bool

record db =
  users :: "user_row list"
  anonymous_users :: "anon_row list"
  chatrooms :: "chatroom_row list"
  chatroom_admins :: "admin_row list"
  messages :: "message_row list"
  msg_seq :: nat
  user_mutes :: "mute_row list"
  chatroom_members :: "member_row list"
  files :: "file_row list"

text \<open>
  \<open>msg_seq\<close> is the AUTOINCREMENT counter of the messages table: the largest id handed out so
  far.  The default of every \<^verbatim>\<open>created_at\<close> column is \<^verbatim>\<open>strftime('%s','now') * 1000\<close>, the
  current time truncated to whole seconds.
\<close>

definition sql_now :: "time \<Rightarrow> time" where
  "sql_now now = (now div 1000) * 1000"

section \<open>Errors\<close>

text \<open>
  One constructor for each error the modelled services throw (the source distinguishes them
  by their message text).  \<open>Muted\<close> carries the remaining minutes, rounded up, that the
  message of the source prints; \<open>FileNameRequired\<close> is thrown by two checks of the file
  validation, which use the same message.
\<close>

datatype error =
    ImageUrlRequired
  | CaptionTooLong
  | BvRequired
  | BvFormat
  | MarkdownEmpty
  | MarkdownTooLong
  | MarkdownTitleTooLong
  | FileIdRequired
  | FileNameRequired
  | FileSizeInvalid
  | FileExpiryRequired
  | ContentEmpty
  | ContentTooLong
  | Muted int
  | ReplyTargetNotFound
  | StoreError
  | TypeError
  | MessageNotFound
  | NoDeletePermission
  | DeleteFailed
  | RollbackFailed
  | NoBulkDeletePermission
  | CreatorMessagesProtected
  | BulkDeleteFailed
  | RoomNotFound
  | PasswordRequired
  | InvalidPassword
  | OnlyCreatorCanKick
  | CannotKickSelf
  | NotAMember
  | NoMutePermission
  | CannotMuteCreator
  | SystemBusy

section \<open>Utilities\<close>

text \<open>JavaScript truthiness of the optional values the services test with \<^verbatim>\<open>!x\<close>.\<close>

definition truthy_str :: "string option \<Rightarrow> bool" where
  "truthy_str s = (case s of None \<Rightarrow> False | Some t \<Rightarrow> t \<noteq> [])"

definition truthy_int :: "int option \<Rightarrow> bool" where
  "truthy_int n = (case n of None \<Rightarrow> False | Some k \<Rightarrow> k \<noteq> 0)"

definition truthy_nat :: "nat option \<Rightarrow> bool" where
  "truthy_nat n = (case n of None \<Rightarrow> False | Some k \<Rightarrow> k \<noteq> 0)"

text \<open>
  \<^verbatim>\<open>String.prototype.trim\<close> removes white space and line terminators from both ends; these are
  the ones among the code units below 256.
\<close>

definition is_space :: "char \<Rightarrow> bool" where
  "is_space c = (c \<in> {CHR 0x09, CHR 0x0A, CHR 0x0B, CHR 0x0C, CHR 0x0D, CHR 0x20, CHR 0xA0})"

definition trim :: "string \<Rightarrow> string" where
  "trim s = rev (dropWhile is_space (rev (dropWhile is_space s)))"

text \<open>\<^verbatim>\<open>s.replace(/c/g, r)\<close> for a single character \<open>c\<close>.\<close>

definition replace_all :: "char \<Rightarrow> string \<Rightarrow> string \<Rightarrow> string" where
  "replace_all c r s = concat (map (\<lambda>x. if x = c then r else [x]) s)"

text \<open>
  \<^verbatim>\<open>
  sanitizeText(text) {
    if (!text || typeof text !== 'string') return '';
    return text.trim().replace(/</g, '&lt;').replace(/>/g, '&gt;').replace(/"/g, '&quot;')
      .replace(/'/g, '&#x27;').replace(/\//g, '&#x2F;');
  }
  \<close>
\<close>

definition sanitizeText :: "string option \<Rightarrow> string" where
  "sanitizeText text =
     (if \<not> truthy_str text then []
      else replace_all (CHR ''/'') ''&#x2F;''
            (replace_all (CHR 0x27) ''&#x27;''
              (replace_all (CHR 0x22) ''&quot;''
                (replace_all (CHR ''>'') ''&gt;''
                  (replace_all (CHR ''<'') ''&lt;'' (trim (the text)))))))"

text \<open>
  \<^verbatim>\<open>new Date(t)\<close> of a number is a valid date when the absolute value of \<open>t\<close> is at most
  8.64e15 milliseconds, and the invalid date otherwise.  A comparison or a subtraction with
  the invalid date yields \<^verbatim>\<open>false\<close> and \<^verbatim>\<open>NaN\<close>.  All integers of that range are exact
  as JavaScript numbers; a larger integer that is read from a column of the store is rounded
  to a number that is outside of the range as well.
\<close>

definition valid_date :: "int \<Rightarrow> bool" where
  "valid_date t = (- 8640000000000000 \<le> t \<and> t \<le> 8640000000000000)"

text \<open>
  \<^verbatim>\<open>isUserMuted(muteUntil)\<close> is
  \<^verbatim>\<open>if (!muteUntil) return false; return new Date(muteUntil) > new Date();\<close> and
  \<^verbatim>\<open>getMuteTimeRemaining(muteUntil)\<close> is
  \<^verbatim>\<open>if (!muteUntil) return 0; return Math.max(0, new Date(muteUntil) - new Date());\<close>.
  The clock \<^verbatim>\<open>new Date()\<close> is the parameter \<open>now\<close>, which is a valid date.  The result
  \<open>None\<close> of \<open>getMuteTimeRemaining\<close> stands for \<^verbatim>\<open>NaN\<close>.
\<close>

definition isUserMuted :: "time \<Rightarrow> int option \<Rightarrow> bool" where
  "isUserMuted now muteUntil =
     (if \<not> truthy_int muteUntil then False
      else valid_date (the muteUntil) \<and> the muteUntil > now)"

definition getMuteTimeRemaining :: "time \<Rightarrow> int option \<Rightarrow> int option" where
  "getMuteTimeRemaining now muteUntil =
     (if \<not> truthy_int muteUntil then Some 0
      else if valid_date (the muteUntil) then Some (max 0 (the muteUntil - now))
      else None)"

section \<open>Moderation queries\<close>

text \<open>
  \<^verbatim>\<open>checkAdminPermission(uid, roomId)\<close>: the room's creator, or a row of \<^verbatim>\<open>chatroom_admins\<close>.
\<close>

definition find_room :: "db \<Rightarrow> string \<Rightarrow> chatroom_row option" where
  "find_room d roomId = find (\<lambda>c. cr_room_id c = roomId) (chatrooms d)"

definition find_active_room :: "db \<Rightarrow> string \<Rightarrow> chatroom_row option" where
  "find_active_room d roomId = find (\<lambda>c. cr_room_id c = roomId \<and> cr_is_active c) (chatrooms d)"

definition is_admin_row :: "string \<Rightarrow> string \<Rightarrow> admin_row \<Rightarrow> bool" where
  "is_admin_row roomId uid a = (ca_chatroom_id a = roomId \<and> ca_user_uid a = uid)"

definition checkAdminPermission :: "db \<Rightarrow> string \<Rightarrow> string \<Rightarrow> bool" where
  "checkAdminPermission d uid roomId =
     (case find_room d roomId of
        Some c \<Rightarrow> if cr_creator_uid c = uid then True
                  else list_ex (is_admin_row roomId uid) (chatroom_admins d)
      | None \<Rightarrow> list_ex (is_admin_row roomId uid) (chatroom_admins d))"

text \<open>
  \<^verbatim>\<open>ORDER BY created_at DESC LIMIT 1\<close>: a row with the largest \<^verbatim>\<open>created_at\<close>.  SQL leaves the
  choice among equal timestamps open; the model takes the first such row in rowid order.
\<close>

fun latest_mute :: "mute_row list \<Rightarrow> mute_row option" where
  "latest_mute [] = None"
| "latest_mute (r # rs) =
     (case latest_mute rs of
        None \<Rightarrow> Some r
      | Some b \<Rightarrow> if mu_created_at b > mu_created_at r then Some b else Some r)"

record mute_status =
  isMuted :: bool
  muteUntil :: "int option"
  remaining :: int

definition is_mute_of :: "string \<Rightarrow> string \<Rightarrow> mute_row \<Rightarrow> bool" where
  "is_mute_of roomId uid r = (mu_chatroom_id r = roomId \<and> mu_user_uid r = uid)"

definition is_anon_of :: "string \<Rightarrow> string \<Rightarrow> anon_row \<Rightarrow> bool" where
  "is_anon_of roomId uid a = (au_uid a = uid \<and> au_chatroom_id a = roomId)"

text \<open>
  \<^verbatim>\<open>checkUserMuted(uid, roomId)\<close>: the most recent active mute record of the principal in
  the room, then the principal's active anonymous row.  \<^verbatim>\<open>getMuteTimeRemaining\<close> is called
  only with a value for which \<^verbatim>\<open>isUserMuted\<close> has just returned true, so its result is a
  number there.
\<close>

definition checkUserMuted :: "db \<Rightarrow> time \<Rightarrow> string \<Rightarrow> string \<Rightarrow> mute_status" where
  "checkUserMuted d now uid roomId =
     (let muteRecord =
            latest_mute (filter (\<lambda>r. is_mute_of roomId uid r \<and> mu_is_active r) (user_mutes d));
          anonymousUser = find (\<lambda>a. is_anon_of roomId uid a \<and> au_is_active a) (anonymous_users d)
      in if muteRecord \<noteq> None \<and> isUserMuted now (Some (mu_mute_until (the muteRecord))) then
           \<lparr>isMuted = True, muteUntil = Some (mu_mute_until (the muteRecord)),
            remaining = the (getMuteTimeRemaining now (Some (mu_mute_until (the muteRecord))))\<rparr>
         else if anonymousUser \<noteq> None \<and> isUserMuted now (au_mute_until (the anonymousUser)) then
           \<lparr>isMuted = True, muteUntil = au_mute_until (the anonymousUser),
            remaining = the (getMuteTimeRemaining now (au_mute_until (the anonymousUser)))\<rparr>
         else \<lparr>isMuted = False, muteUntil = None, remaining = 0\<rparr>)"

section \<open>The message pipeline: send\<close>

text \<open>
  The argument object of \<^verbatim>\<open>sendMessage(messageData)\<close>.  The destructuring gives most
  fields the default \<^verbatim>\<open>null\<close>, so for them \<^verbatim>\<open>undefined\<close> and \<^verbatim>\<open>null\<close> are the same
  value \<open>None\<close>.  The defaults \<^verbatim>\<open>userType = 'user'\<close> and \<^verbatim>\<open>messageType = 'text'\<close>
  replace \<^verbatim>\<open>undefined\<close> only and leave \<^verbatim>\<open>null\<close> as it is, so these two fields keep the
  three cases apart; \<open>userType_of\<close> and \<open>messageType_of\<close> are the values of the local
  variables after the destructuring, \<open>None\<close> being \<^verbatim>\<open>null\<close>.
\<close>

datatype js_field = Undefined | Null | Str string

record messageData =
  md_chatroomId :: string
  md_userUid :: string
  md_userType :: js_field
  md_content :: "string option"
  md_messageType :: js_field
  md_imageUrl :: "string option"
  md_replyToMessageId :: "nat option"
  md_bilibiliId :: "string option"
  md_markdownContent :: "string option"
  md_fileId :: "string option"
  md_fileName :: "string option"
  md_fileSize :: "int option"
  md_fileExpiry :: "int option"

definition userType_of :: "messageData \<Rightarrow> string option" where
  "userType_of md =
     (case md_userType md of Undefined \<Rightarrow> Some ''user'' | Null \<Rightarrow> None | Str t \<Rightarrow> Some t)"

definition messageType_of :: "messageData \<Rightarrow> string option" where
  "messageType_of md =
     (case md_messageType md of Undefined \<Rightarrow> Some ''text'' | Null \<Rightarrow> None | Str t \<Rightarrow> Some t)"

text \<open>
  \<^verbatim>\<open>!x || typeof x !== 'string' || x.trim().length === 0\<close> and
  \<^verbatim>\<open>!n || typeof n !== 'number' || n <= 0\<close>.
\<close>

definition blank :: "string option \<Rightarrow> bool" where
  "blank s = (case s of None \<Rightarrow> True | Some t \<Rightarrow> trim t = [])"

definition not_positive :: "int option \<Rightarrow> bool" where
  "not_positive n = (case n of None \<Rightarrow> True | Some k \<Rightarrow> k \<le> 0)"

text \<open>\<^verbatim>\<open>/^BV[a-zA-Z0-9]{10}$/\<close>\<close>

definition is_alnum :: "char \<Rightarrow> bool" where
  "is_alnum c =
     (let n = (of_char c :: nat)
      in (48 \<le> n \<and> n \<le> 57) \<or> (65 \<le> n \<and> n \<le> 90) \<or> (97 \<le> n \<and> n \<le> 122))"

definition bv_format :: "string \<Rightarrow> bool" where
  "bv_format s = (take 2 s = ''BV'' \<and> length (drop 2 s) = 10 \<and> list_all is_alnum (drop 2 s))"

text \<open>
  The first part of \<^verbatim>\<open>sendMessage\<close> (``validate the message content''), one branch per message
  type; \<open>Some e\<close> is the error thrown, \<open>None\<close> means the payload passed.
\<close>

definition validate :: "messageData \<Rightarrow> error option" where
  "validate md =
     (let messageType = messageType_of md; content = md_content md in
      if messageType = Some ''image'' then
        (if \<not> truthy_str (md_imageUrl md) then Some ImageUrlRequired
         else if truthy_str content \<and> length (the content) > 200 then Some CaptionTooLong
         else None)
      else if messageType = Some ''bilibili'' then
        (if blank (md_bilibiliId md) then Some BvRequired
         else if \<not> bv_format (trim (the (md_bilibiliId md))) then Some BvFormat
         else None)
      else if messageType = Some ''markdown'' then
        (if blank (md_markdownContent md) then Some MarkdownEmpty
         else if length (the (md_markdownContent md)) > 5000 then Some MarkdownTooLong
         else if truthy_str content \<and> length (the content) > 100 then Some MarkdownTitleTooLong
         else None)
      else if messageType = Some ''file'' then
        (if blank (md_fileId md) then Some FileIdRequired
         else if blank (md_fileName md) then Some FileNameRequired
         else if not_positive (md_fileSize md) then Some FileSizeInvalid
         else if not_positive (md_fileExpiry md) then Some FileExpiryRequired
         else if blank content then Some FileNameRequired
         else None)
      else
        (if blank content then Some ContentEmpty
         else if length (the content) > 1000 then Some ContentTooLong
         else None))"

text \<open>
  The INSERT into \<^verbatim>\<open>messages\<close>.  The new id is the AUTOINCREMENT successor.  The statement is
  rejected when it breaks a constraint of the table: the UNIQUE \<^verbatim>\<open>message_id\<close>, the CHECKs
  on \<^verbatim>\<open>sender_type\<close> and \<^verbatim>\<open>message_type\<close> (a CHECK accepts NULL), and the two foreign
  keys (foreign keys are switched on when the database is opened).  \<^verbatim>\<open>sender_type\<close> is
  also NOT NULL, which \<^verbatim>\<open>sendMessage\<close> below tests before it builds the row.
\<close>

definition next_msg_id :: "db \<Rightarrow> nat" where
  "next_msg_id d = fold max (map msg_id (messages d)) (msg_seq d) + 1"

definition insert_allowed :: "db \<Rightarrow> message_row \<Rightarrow> bool" where
  "insert_allowed d r =
     (msg_message_id r \<notin> set (map msg_message_id (messages d)) \<and>
      msg_sender_type r \<in> {''user'', ''anonymous'', ''system''} \<and>
      (case msg_message_type r of None \<Rightarrow> True
       | Some t \<Rightarrow> t \<in> {''text'', ''image'', ''file'', ''system'', ''bilibili'', ''markdown''}) \<and>
      msg_chatroom_id r \<in> set (map cr_room_id (chatrooms d)) \<and>
      (case msg_reply_to_message_id r of None \<Rightarrow> True
       | Some k \<Rightarrow> k \<in> set (map msg_id (messages d))))"

record user_info =
  ui_uid :: string
  ui_nickname :: string
  ui_avatar_url :: "string option"

record reply_preview =
  rp_id :: nat
  rp_content :: string
  rp_messageType :: "string option"
  rp_createdAt :: time
  rp_user :: user_info

text \<open>
  The object \<^verbatim>\<open>sendMessage\<close> returns: the values it stored (\<open>sr_row\<close>), its own
  \<^verbatim>\<open>createdAt: Date.now()\<close>, the sender with the admin flag, and the preview of the replied
  message.
\<close>

record send_result =
  sr_row :: message_row
  sr_createdAt :: time
  sr_user :: user_info
  sr_isAdmin :: bool
  sr_replyToMessage :: "reply_preview option"

definition anon_info :: "anon_row \<Rightarrow> user_info" where
  "anon_info a = \<lparr>ui_uid = au_uid a, ui_nickname = au_nickname a, ui_avatar_url = au_avatar_url a\<rparr>"

definition reg_info :: "user_row \<Rightarrow> user_info" where
  "reg_info u = \<lparr>ui_uid = u_uid u, ui_nickname = u_nickname u, ui_avatar_url = u_avatar_url u\<rparr>"

definition sender_info :: "db \<Rightarrow> string \<Rightarrow> string \<Rightarrow> string \<Rightarrow> user_info option" where
  "sender_info d userType uid roomId =
     (if userType = ''anonymous''
      then map_option anon_info (find (is_anon_of roomId uid) (anonymous_users d))
      else map_option reg_info (find (\<lambda>u. u_uid u = uid) (users d)))"

text \<open>
  The display name of the system sender is a two-character Chinese word in the source; it is
  written in English here.
\<close>

definition system_nickname :: string where
  "system_nickname = ''system''"

definition replied_info :: "db \<Rightarrow> message_row \<Rightarrow> string \<Rightarrow> user_info option" where
  "replied_info d rm roomId =
     (if msg_sender_type rm = ''anonymous''
      then map_option anon_info (find (is_anon_of roomId (msg_sender_uid rm)) (anonymous_users d))
      else if msg_sender_type rm = ''system''
      then Some \<lparr>ui_uid = ''system'', ui_nickname = system_nickname, ui_avatar_url = None\<rparr>
      else map_option reg_info (find (\<lambda>u. u_uid u = msg_sender_uid rm) (users d)))"

definition ceil_div :: "int \<Rightarrow> int \<Rightarrow> int" where
  "ceil_div a b = - ((- a) div b)"

text \<open>
  \<^verbatim>\<open>sendMessage\<close>, in the order of the source: validation, the mute check, sanitizing of
  \<^verbatim>\<open>content\<close>, the reply target, the INSERT, and then the reads that build the returned
  object.  A \<^verbatim>\<open>userType\<close> that is \<^verbatim>\<open>null\<close> makes the INSERT fail, the column
  \<^verbatim>\<open>sender_type\<close> being NOT NULL.  Reading \<^verbatim>\<open>userInfo.uid\<close> of a sender (or replied
  sender) that has no row throws a TypeError after the row has been inserted.  \<open>uuid\<close> is
  the value of \<^verbatim>\<open>utils.generateMessageId()\<close>.
\<close>

definition sendMessage :: "time \<Rightarrow> string \<Rightarrow> db \<Rightarrow> messageData \<Rightarrow> (error + send_result) \<times> db" where
  "sendMessage now uuid d md =
     (case validate md of
        Some e \<Rightarrow> (Inl e, d)
      | None \<Rightarrow>
          let muteStatus = checkUserMuted d now (md_userUid md) (md_chatroomId md) in
          if isMuted muteStatus then (Inl (Muted (ceil_div (remaining muteStatus) 60000)), d)
          else
            let sanitizedContent =
                  (if truthy_str (md_content md) then sanitizeText (md_content md) else []);
                replyToMessage =
                  (if truthy_nat (md_replyToMessageId md)
                   then find (\<lambda>m. msg_id m = the (md_replyToMessageId md) \<and>
                                   msg_chatroom_id m = md_chatroomId md) (messages d)
                   else None)
            in if truthy_nat (md_replyToMessageId md) \<and> replyToMessage = None
               then (Inl ReplyTargetNotFound, d)
               else
                 (case userType_of md of
                    None \<Rightarrow> (Inl StoreError, d)
                  | Some userType \<Rightarrow>
                      let row = \<lparr>msg_id = next_msg_id d, msg_message_id = uuid,
                                 msg_chatroom_id = md_chatroomId md,
                                 msg_sender_uid = md_userUid md,
                                 msg_sender_type = userType, msg_content = sanitizedContent,
                                 msg_message_type = messageType_of md,
                                 msg_image_url = md_imageUrl md,
                                 msg_reply_to_message_id = md_replyToMessageId md,
                                 msg_bilibili_bv = md_bilibiliId md,
                                 msg_markdown_content = md_markdownContent md,
                                 msg_file_id = md_fileId md, msg_file_name = md_fileName md,
                                 msg_file_size = md_fileSize md,
                                 msg_file_expiry = md_fileExpiry md,
                                 msg_is_deleted = False, msg_created_at = sql_now now\<rparr>
                      in if \<not> insert_allowed d row then (Inl StoreError, d)
                         else
                           let d' = d\<lparr>messages := messages d @ [row], msg_seq := msg_id row\<rparr> in
                           (case sender_info d' userType (md_userUid md) (md_chatroomId md) of
                              None \<Rightarrow> (Inl TypeError, d')
                            | Some userInfo \<Rightarrow>
                                let isAdmin =
                                      checkAdminPermission d' (md_userUid md) (md_chatroomId md)
                                in
                                (case replyToMessage of
                                   None \<Rightarrow>
                                     (Inr \<lparr>sr_row = row, sr_createdAt = now, sr_user = userInfo,
                                           sr_isAdmin = isAdmin, sr_replyToMessage = None\<rparr>, d')
                                 | Some rm \<Rightarrow>
                                     (case replied_info d' rm (md_chatroomId md) of
                                        None \<Rightarrow> (Inl TypeError, d')
                                      | Some ru \<Rightarrow>
                                          (Inr \<lparr>sr_row = row, sr_createdAt = now,
                                                sr_user = userInfo, sr_isAdmin = isAdmin,
                                                sr_replyToMessage =
                                                  Some \<lparr>rp_id = msg_id rm,
                                                        rp_content = msg_content rm,
                                                        rp_messageType = msg_message_type rm,
                                                        rp_createdAt = msg_created_at rm,
                                                        rp_user = ru\<rparr>\<rparr>, d'))))))"

text \<open>The characters that \<^verbatim>\<open>sanitizeText\<close> replaces by entities.\<close>

definition markup_chars :: "char set" where
  "markup_chars = {CHR ''<'', CHR ''>'', CHR 0x22, CHR 0x27, CHR ''/''}"

section \<open>The message pipeline: delete\<close>

subsection \<open>The connection\<close>

text \<open>
  The database module opens one SQLite connection (\<^verbatim>\<open>new sqlite3.Database(DB_PATH)\<close>) and
  every service sends its statements through it.  A transaction belongs to the connection,
  not to the call that began it.  The connection is the store its statements read and write,
  together with the store as it was at \<^verbatim>\<open>BEGIN\<close> while a transaction is open.  A statement
  outside a transaction takes effect at once.
\<close>

record conn =
  cn_store :: db
  cn_saved :: "db option"

definition idle :: "db \<Rightarrow> conn" where
  "idle d = \<lparr>cn_store = d, cn_saved = None\<rparr>"

text \<open>
  \<^verbatim>\<open>database.beginTransaction()\<close>, \<^verbatim>\<open>database.commit()\<close> and \<^verbatim>\<open>database.rollback()\<close> run
  \<^verbatim>\<open>BEGIN TRANSACTION\<close>, \<^verbatim>\<open>COMMIT\<close> and \<^verbatim>\<open>ROLLBACK\<close>.  SQLite rejects \<^verbatim>\<open>BEGIN\<close> inside a
  transaction, and \<^verbatim>\<open>COMMIT\<close> and \<^verbatim>\<open>ROLLBACK\<close> when no transaction is open; \<open>None\<close> is the
  rejected promise.
\<close>

definition beginTransaction :: "conn \<Rightarrow> conn option" where
  "beginTransaction cn =
     (case cn_saved cn of
        None \<Rightarrow> Some (cn\<lparr>cn_saved := Some (cn_store cn)\<rparr>)
      | Some s \<Rightarrow> None)"

definition commit :: "conn \<Rightarrow> conn option" where
  "commit cn = (case cn_saved cn of None \<Rightarrow> None | Some s \<Rightarrow> Some (cn\<lparr>cn_saved := None\<rparr>))"

definition rollback :: "conn \<Rightarrow> conn option" where
  "rollback cn =
     (case cn_saved cn of None \<Rightarrow> None | Some s \<Rightarrow> Some \<lparr>cn_store = s, cn_saved = None\<rparr>)"

text \<open>\<^verbatim>\<open>database.run\<close> of an UPDATE or a DELETE that the store accepts.\<close>

definition run :: "(db \<Rightarrow> db) \<Rightarrow> conn \<Rightarrow> conn" where
  "run f cn = cn\<lparr>cn_store := f (cn_store cn)\<rparr>"

subsection \<open>The statements of a deletion\<close>

text \<open>
  Besides the rejections that follow from the state of the connection, a statement can be
  rejected for a reason outside the model (an I/O error, a busy database); which ones are is
  an input, the record \<open>faults\<close>: a flag that is \<open>True\<close> makes that step throw.  The uploaded
  files live outside the store, in a directory that is modelled by the set of stored names
  present in it.
\<close>

record faults =
  fl_begin :: bool
  fl_clear_replies :: bool
  fl_get_file :: bool
  fl_update_file :: bool
  fl_unlink :: bool
  fl_delete :: bool
  fl_commit :: bool

type_synonym disk = "string set"

record delete_result =
  dr_messageId :: nat
  dr_deletedBy :: string

text \<open>\<^verbatim>\<open>UPDATE messages SET reply_to_message_id = NULL WHERE reply_to_message_id = ?\<close>\<close>

definition clear_replies :: "nat \<Rightarrow> message_row list \<Rightarrow> message_row list" where
  "clear_replies k ms =
     map (\<lambda>m. if msg_reply_to_message_id m = Some k
               then m\<lparr>msg_reply_to_message_id := None\<rparr> else m) ms"

text \<open>\<^verbatim>\<open>UPDATE files SET is_expired = 1, message_id = NULL WHERE file_id = ?\<close>\<close>

definition release_file :: "string \<Rightarrow> file_row list \<Rightarrow> file_row list" where
  "release_file fid fs =
     map (\<lambda>f. if f_file_id f = fid then f\<lparr>f_is_expired := True, f_message_id := None\<rparr> else f) fs"

text \<open>
  \<^verbatim>\<open>try { if (fs.existsSync(p)) fs.unlinkSync(p) } catch (error) { console.warn(...) }\<close>:
  a failing removal is logged and otherwise ignored.
\<close>

definition unlink_stored :: "bool \<Rightarrow> string \<Rightarrow> disk \<Rightarrow> disk" where
  "unlink_stored fails name dk = (if name \<in> dk \<and> \<not> fails then dk - {name} else dk)"

text \<open>
  \<^verbatim>\<open>DELETE FROM messages WHERE id = ?\<close>.  With foreign keys switched on, the statement is
  rejected while another message still replies to the row
  (\<^verbatim>\<open>FOREIGN KEY (reply_to_message_id) REFERENCES messages(id)\<close>) or a file row still points
  to it (\<^verbatim>\<open>FOREIGN KEY (message_id) REFERENCES messages(message_id)\<close>).
\<close>

definition delete_row :: "nat \<Rightarrow> message_row list \<Rightarrow> message_row list" where
  "delete_row k ms = filter (\<lambda>m. msg_id m \<noteq> k) ms"

definition delete_allowed :: "db \<Rightarrow> nat \<Rightarrow> bool" where
  "delete_allowed d k =
     (case find (\<lambda>m. msg_id m = k) (messages d) of
        None \<Rightarrow> True
      | Some row \<Rightarrow>
          \<not> list_ex (\<lambda>m. msg_reply_to_message_id m = Some k \<and> msg_id m \<noteq> k) (messages d) \<and>
          \<not> list_ex (\<lambda>f. f_message_id f = Some (msg_message_id row)) (files d))"

subsection \<open>One call, statement by statement\<close>

text \<open>
  \<^verbatim>\<open>deleteMessage(messageId, deleterUid, chatroomId)\<close> is an async function: at each
  \<^verbatim>\<open>await\<close> of a statement it is suspended, and the statements of other calls may reach the
  connection before it goes on.  A running call is therefore a position in the function with
  the local variables that are live there.  \<open>At_room\<close> and \<open>At_admin\<close> are the two reads of
  \<^verbatim>\<open>checkAdminPermission\<close>; from \<open>At_begin\<close> to \<open>At_commit\<close> the call is inside \<^verbatim>\<open>try\<close>, and
  \<open>At_rollback\<close> is the \<^verbatim>\<open>catch\<close> block.
\<close>

datatype del_pc =
    At_select
  | At_room message_row
  | At_admin message_row
  | At_begin message_row
  | At_clear message_row
  | At_get_file message_row
  | At_update_file message_row "file_row option"
  | At_delete
  | At_commit
  | At_rollback
  | Finished "error + delete_result"

text \<open>
  The test between the permission check and \<^verbatim>\<open>try\<close>:
  \<^verbatim>\<open>if (!isAdmin && !isOwner) throw new Error(...)\<close>.
\<close>

definition permitted :: "message_row \<Rightarrow> string \<Rightarrow> bool \<Rightarrow> del_pc" where
  "permitted message deleterUid isAdmin =
     (if \<not> isAdmin \<and> \<not> (msg_sender_uid message = deleterUid)
      then Finished (Inl NoDeletePermission) else At_begin message)"

text \<open>
  One step: the statement the call is waiting at is executed, and the call runs on to its
  next statement.  The file is removed from the directory right after the
  \<^verbatim>\<open>UPDATE files\<close>, before the \<^verbatim>\<open>DELETE\<close> is sent.  An error inside \<^verbatim>\<open>try\<close> leads to
  \<^verbatim>\<open>await database.rollback()\<close>; when that is rejected too, its error is the one thrown,
  otherwise the call throws the deletion error.
\<close>

fun delete_step ::
    "faults \<Rightarrow> nat \<Rightarrow> string \<Rightarrow> string \<Rightarrow> del_pc \<times> conn \<times> disk \<Rightarrow> del_pc \<times> conn \<times> disk" where
  "delete_step fl messageId deleterUid chatroomId (At_select, cn, dk) =
     (case find (\<lambda>m. msg_id m = messageId \<and> msg_chatroom_id m = chatroomId)
             (messages (cn_store cn)) of
        None \<Rightarrow> (Finished (Inl MessageNotFound), cn, dk)
      | Some message \<Rightarrow> (At_room message, cn, dk))"
| "delete_step fl messageId deleterUid chatroomId (At_room message, cn, dk) =
     (case find_room (cn_store cn) chatroomId of
        None \<Rightarrow> (At_admin message, cn, dk)
      | Some chatroom \<Rightarrow>
          if cr_creator_uid chatroom = deleterUid then (permitted message deleterUid True, cn, dk)
          else (At_admin message, cn, dk))"
| "delete_step fl messageId deleterUid chatroomId (At_admin message, cn, dk) =
     (permitted message deleterUid
        (list_ex (is_admin_row chatroomId deleterUid) (chatroom_admins (cn_store cn))), cn, dk)"
| "delete_step fl messageId deleterUid chatroomId (At_begin message, cn, dk) =
     (if fl_begin fl then (At_rollback, cn, dk)
      else (case beginTransaction cn of
              None \<Rightarrow> (At_rollback, cn, dk)
            | Some cn' \<Rightarrow> (At_clear message, cn', dk)))"
| "delete_step fl messageId deleterUid chatroomId (At_clear message, cn, dk) =
     (if fl_clear_replies fl then (At_rollback, cn, dk)
      else (if msg_message_type message = Some ''file'' \<and> truthy_str (msg_file_id message)
            then At_get_file message else At_delete,
            run (\<lambda>d. d\<lparr>messages := clear_replies messageId (messages d)\<rparr>) cn, dk))"
| "delete_step fl messageId deleterUid chatroomId (At_get_file message, cn, dk) =
     (if fl_get_file fl then (At_rollback, cn, dk)
      else (At_update_file message
              (find (\<lambda>f. f_file_id f = the (msg_file_id message)) (files (cn_store cn))),
            cn, dk))"
| "delete_step fl messageId deleterUid chatroomId (At_update_file message fileInfo, cn, dk) =
     (if fl_update_file fl then (At_rollback, cn, dk)
      else (At_delete,
            run (\<lambda>d. d\<lparr>files := release_file (the (msg_file_id message)) (files d)\<rparr>) cn,
            (case fileInfo of
               None \<Rightarrow> dk
             | Some f \<Rightarrow> if f_stored_name f \<noteq> []
                         then unlink_stored (fl_unlink fl) (f_stored_name f) dk
                         else dk)))"
| "delete_step fl messageId deleterUid chatroomId (At_delete, cn, dk) =
     (if fl_delete fl then (At_rollback, cn, dk)
      else if \<not> delete_allowed (cn_store cn) messageId then (At_rollback, cn, dk)
      else (At_commit, run (\<lambda>d. d\<lparr>messages := delete_row messageId (messages d)\<rparr>) cn, dk))"
| "delete_step fl messageId deleterUid chatroomId (At_commit, cn, dk) =
     (if fl_commit fl then (At_rollback, cn, dk)
      else (case commit cn of
              None \<Rightarrow> (At_rollback, cn, dk)
            | Some cn' \<Rightarrow>
                (Finished (Inr \<lparr>dr_messageId = messageId, dr_deletedBy = deleterUid\<rparr>), cn', dk)))"
| "delete_step fl messageId deleterUid chatroomId (At_rollback, cn, dk) =
     (case rollback cn of
        None \<Rightarrow> (Finished (Inl RollbackFailed), cn, dk)
      | Some cn' \<Rightarrow> (Finished (Inl DeleteFailed), cn', dk))"
| "delete_step fl messageId deleterUid chatroomId (Finished res, cn, dk) = (Finished res, cn, dk)"

subsection \<open>A call that runs alone\<close>

text \<open>
  The number of statements a call has still to execute, at most.
\<close>

fun steps_left :: "del_pc \<Rightarrow> nat" where
  "steps_left At_select = 10"
| "steps_left (At_room message) = 9"
| "steps_left (At_admin message) = 8"
| "steps_left (At_begin message) = 7"
| "steps_left (At_clear message) = 6"
| "steps_left (At_get_file message) = 5"
| "steps_left (At_update_file message fileInfo) = 4"
| "steps_left At_delete = 3"
| "steps_left At_commit = 2"
| "steps_left At_rollback = 1"
| "steps_left (Finished res) = 0"

text \<open>
  \<open>delete_run\<close> executes the statements of one call one after the other, with no statement
  of another call in between, and returns what the call returns or throws.
  \<open>deleteMessage\<close> is such a run on a connection that has no transaction open.
\<close>

function delete_run ::
    "faults \<Rightarrow> nat \<Rightarrow> string \<Rightarrow> string \<Rightarrow> del_pc \<times> conn \<times> disk \<Rightarrow>
     (error + delete_result) \<times> conn \<times> disk" where
  "delete_run fl messageId deleterUid chatroomId (pc, cn, dk) =
     (case pc of
        Finished res \<Rightarrow> (res, cn, dk)
      | _ \<Rightarrow> delete_run fl messageId deleterUid chatroomId
               (delete_step fl messageId deleterUid chatroomId (pc, cn, dk)))"
  by pat_completeness auto

termination
  by (relation "measure (\<lambda>(fl, messageId, deleterUid, chatroomId, pc, cn, dk). steps_left pc)")
     (auto simp: permitted_def split: option.splits if_splits)

definition deleteMessage ::
    "faults \<Rightarrow> db \<Rightarrow> disk \<Rightarrow> nat \<Rightarrow> string \<Rightarrow> string \<Rightarrow> (error + delete_result) \<times> db \<times> disk" where
  "deleteMessage fl d dk messageId deleterUid chatroomId =
     (case delete_run fl messageId deleterUid chatroomId (At_select, idle d, dk) of
        (res, cn, dk') \<Rightarrow> (res, cn_store cn, dk'))"

text \<open>
  For a call that runs alone the statements between \<^verbatim>\<open>BEGIN\<close> and the end of the \<^verbatim>\<open>try\<close>
  block can be written down in one piece.  The first component is \<open>None\<close> when a statement
  threw, otherwise the store at \<^verbatim>\<open>COMMIT\<close>; the second is the upload directory as the
  statements left it.  This is not a function of the source, only a second description of
  \<open>deleteMessage\<close>, with which it is shown to agree.
\<close>

definition delete_transaction ::
    "faults \<Rightarrow> db \<Rightarrow> disk \<Rightarrow> message_row \<Rightarrow> nat \<Rightarrow> db option \<times> disk" where
  "delete_transaction fl d dk message messageId =
     (if fl_clear_replies fl then (None, dk)
      else
        let d1 = d\<lparr>messages := clear_replies messageId (messages d)\<rparr> in
        if msg_message_type message = Some ''file'' \<and> truthy_str (msg_file_id message) then
          (if fl_get_file fl then (None, dk)
           else
             let fileInfo = find (\<lambda>f. f_file_id f = the (msg_file_id message)) (files d1) in
             if fl_update_file fl then (None, dk)
             else
               let d2 = d1\<lparr>files := release_file (the (msg_file_id message)) (files d1)\<rparr>;
                   dk2 = (case fileInfo of
                            None \<Rightarrow> dk
                          | Some f \<Rightarrow> if f_stored_name f \<noteq> []
                                      then unlink_stored (fl_unlink fl) (f_stored_name f) dk
                                      else dk)
               in if fl_delete fl then (None, dk2)
                  else if \<not> delete_allowed d2 messageId then (None, dk2)
                  else if fl_commit fl then (None, dk2)
                  else (Some (d2\<lparr>messages := delete_row messageId (messages d2)\<rparr>), dk2))
        else if fl_delete fl then (None, dk)
        else if \<not> delete_allowed d1 messageId then (None, dk)
        else if fl_commit fl then (None, dk)
        else (Some (d1\<lparr>messages := delete_row messageId (messages d1)\<rparr>), dk))"

subsection \<open>Calls that overlap\<close>

text \<open>
  Several calls of \<^verbatim>\<open>deleteMessage\<close> can be under way at once, each with its own arguments
  and its own position.  The order in which their statements reach the connection is a
  schedule: a list of call numbers, each entry letting that call execute one statement.
  Every call executes its own statements in the order of the function.
\<close>

record del_call =
  dc_faults :: faults
  dc_messageId :: nat
  dc_deleterUid :: string
  dc_chatroomId :: string
  dc_at :: del_pc

definition new_call :: "nat \<Rightarrow> string \<Rightarrow> string \<Rightarrow> del_call" where
  "new_call messageId deleterUid chatroomId =
     \<lparr>dc_faults = \<lparr>fl_begin = False, fl_clear_replies = False, fl_get_file = False,
                   fl_update_file = False, fl_unlink = False, fl_delete = False,
                   fl_commit = False\<rparr>,
      dc_messageId = messageId, dc_deleterUid = deleterUid, dc_chatroomId = chatroomId,
      dc_at = At_select\<rparr>"

definition call_step :: "del_call \<Rightarrow> conn \<Rightarrow> disk \<Rightarrow> del_call \<times> conn \<times> disk" where
  "call_step c cn dk =
     (case delete_step (dc_faults c) (dc_messageId c) (dc_deleterUid c) (dc_chatroomId c)
             (dc_at c, cn, dk) of
        (pc, cn', dk') \<Rightarrow> (c\<lparr>dc_at := pc\<rparr>, cn', dk'))"

fun interleave ::
    "nat list \<Rightarrow> del_call list \<times> conn \<times> disk \<Rightarrow> del_call list \<times> conn \<times> disk" where
  "interleave [] s = s"
| "interleave (i # schedule) (calls, cn, dk) =
     (if i < length calls
      then (case call_step (calls ! i) cn dk of
              (c, cn', dk') \<Rightarrow> interleave schedule (calls[i := c], cn', dk'))
      else interleave schedule (calls, cn, dk))"

subsection \<open>Bulk deletion\<close>

text \<open>
  \<^verbatim>\<open>deleteUserMessages(targetUid, chatroomId, deleterUid)\<close>: the two guards, then a transaction
  that marks the target's messages deleted and releases the files of the file messages among
  them, one \<^verbatim>\<open>UPDATE files\<close> and one removal per file message.  \<open>bf_release k\<close> and
  \<open>bf_unlink k\<close> say whether the \<open>k\<close>-th of these fails.  (The marking UPDATE also names the
  columns \<^verbatim>\<open>deleted_by\<close> and \<^verbatim>\<open>deleted_at\<close>, which \<^verbatim>\<open>createTables\<close> does not create; a store
  with that schema rejects the statement, which is the case \<open>bf_mark = True\<close>.)  The guards
  are what the properties below are about.  The part after them is written in one piece, for
  a call that runs alone on a connection without an open transaction, as
  \<open>delete_transaction\<close> is for \<open>deleteMessage\<close>: \<^verbatim>\<open>BEGIN\<close> is then rejected only for an
  outside reason, and the \<^verbatim>\<open>ROLLBACK\<close> after a later failure restores the store.
\<close>

record bulk_faults =
  bf_begin :: bool
  bf_select :: bool
  bf_mark :: bool
  bf_release :: "nat \<Rightarrow> bool"
  bf_unlink :: "nat \<Rightarrow> bool"
  bf_commit :: bool

record bulk_result =
  br_deletedCount :: nat
  br_deletedFiles :: nat

definition is_live_message_of :: "string \<Rightarrow> string \<Rightarrow> message_row \<Rightarrow> bool" where
  "is_live_message_of roomId uid m =
     (msg_chatroom_id m = roomId \<and> msg_sender_uid m = uid \<and> \<not> msg_is_deleted m)"

text \<open>
  The rows of \<^verbatim>\<open>SELECT m.id, m.file_id, f.stored_name FROM messages m LEFT JOIN files f ...\<close>,
  as pairs of \<^verbatim>\<open>file_id\<close> and \<^verbatim>\<open>stored_name\<close>.
\<close>

definition file_messages :: "db \<Rightarrow> string \<Rightarrow> string \<Rightarrow> (string option \<times> string option) list" where
  "file_messages d roomId uid =
     map (\<lambda>m. (msg_file_id m,
                case msg_file_id m of
                  None \<Rightarrow> None
                | Some fid \<Rightarrow> map_option f_stored_name (find (\<lambda>f. f_file_id f = fid) (files d))))
         (filter (\<lambda>m. is_live_message_of roomId uid m \<and> msg_message_type m = Some ''file'')
            (messages d))"

fun release_all ::
    "(nat \<Rightarrow> bool) \<Rightarrow> (nat \<Rightarrow> bool) \<Rightarrow> nat \<Rightarrow> (string option \<times> string option) list \<Rightarrow>
     file_row list \<Rightarrow> disk \<Rightarrow> file_row list option \<times> disk" where
  "release_all fr fu k [] fs dk = (Some fs, dk)"
| "release_all fr fu k ((fid, stored) # rest) fs dk =
     (if truthy_str fid then
        (if fr k then (None, dk)
         else release_all fr fu (Suc k) rest (release_file (the fid) fs)
                (if truthy_str stored then unlink_stored (fu k) (the stored) dk else dk))
      else release_all fr fu (Suc k) rest fs dk)"

definition bulk_transaction ::
    "bulk_faults \<Rightarrow> db \<Rightarrow> disk \<Rightarrow> string \<Rightarrow> string \<Rightarrow> (db \<times> bulk_result) option \<times> disk" where
  "bulk_transaction bf d dk targetUid chatroomId =
     (if bf_select bf then (None, dk)
      else
        let fileMessages = file_messages d chatroomId targetUid in
        if bf_mark bf then (None, dk)
        else
          let changes = length (filter (is_live_message_of chatroomId targetUid) (messages d));
              d1 = d\<lparr>messages := map (\<lambda>m. if is_live_message_of chatroomId targetUid m
                                             then m\<lparr>msg_is_deleted := True\<rparr> else m) (messages d)\<rparr>
          in (case release_all (bf_release bf) (bf_unlink bf) 0 fileMessages (files d1) dk of
                (None, dk') \<Rightarrow> (None, dk')
              | (Some fs', dk') \<Rightarrow>
                  if bf_commit bf then (None, dk')
                  else (Some (d1\<lparr>files := fs'\<rparr>,
                              \<lparr>br_deletedCount = changes, br_deletedFiles = length fileMessages\<rparr>),
                        dk')))"

definition deleteUserMessages ::
    "bulk_faults \<Rightarrow> db \<Rightarrow> disk \<Rightarrow> string \<Rightarrow> string \<Rightarrow> string \<Rightarrow> (error + bulk_result) \<times> db \<times> disk" where
  "deleteUserMessages bf d dk targetUid chatroomId deleterUid =
     (if \<not> checkAdminPermission d deleterUid chatroomId then (Inl NoBulkDeletePermission, d, dk)
      else
        let chatroom = find_room d chatroomId in
        if chatroom \<noteq> None \<and> cr_creator_uid (the chatroom) = targetUid
        then (Inl CreatorMessagesProtected, d, dk)
        else if bf_begin bf then (Inl RollbackFailed, d, dk)
        else
          (case bulk_transaction bf d dk targetUid chatroomId of
             (None, dk') \<Rightarrow> (Inl BulkDeleteFailed, d, dk')
           | (Some (d', r), dk') \<Rightarrow> (Inr r, d', dk')))"

section \<open>Moderation: mute and kick\<close>

text \<open>
  \<^verbatim>\<open>muteUser(roomId, targetUid, muterUid, duration, reason)\<close>, with the duration in seconds.
  It appends a mute record and, when the target has an anonymous row in the room, copies the
  end of the mute into that row.  The INSERT needs its two foreign keys: the room and the
  muting user.
\<close>

record mute_result =
  mr_muteUntil :: int
  mr_duration :: int

definition muteUser ::
    "time \<Rightarrow> db \<Rightarrow> string \<Rightarrow> string \<Rightarrow> string \<Rightarrow> int \<Rightarrow> string \<Rightarrow> (error + mute_result) \<times> db" where
  "muteUser now d roomId targetUid muterUid duration reason =
     (if \<not> checkAdminPermission d muterUid roomId then (Inl NoMutePermission, d)
      else
        let chatroom = find_room d roomId in
        if chatroom \<noteq> None \<and> cr_creator_uid (the chatroom) = targetUid
        then (Inl CannotMuteCreator, d)
        else
          let muteUntil = now + duration * 1000 in
          if roomId \<in> set (map cr_room_id (chatrooms d)) \<and> muterUid \<in> set (map u_uid (users d))
          then
            let d1 = d\<lparr>user_mutes := user_mutes d @
                        [\<lparr>mu_chatroom_id = roomId, mu_user_uid = targetUid,
                          mu_muted_by = muterUid, mu_reason = reason, mu_mute_until = muteUntil,
                          mu_is_active = True, mu_created_at = sql_now now\<rparr>]\<rparr>;
                d2 = (if list_ex (is_anon_of roomId targetUid) (anonymous_users d1)
                      then d1\<lparr>anonymous_users :=
                             map (\<lambda>a. if is_anon_of roomId targetUid a
                                       then a\<lparr>au_mute_until := Some muteUntil\<rparr> else a)
                                 (anonymous_users d1)\<rparr>
                      else d1)
            in (Inr \<lparr>mr_muteUntil = muteUntil, mr_duration = duration\<rparr>, d2)
          else (Inl StoreError, d))"

text \<open>
  \<^verbatim>\<open>kickUser(roomId, targetUid, kickerUid)\<close>: four checks, then three statements: the
  member row is set to \<^verbatim>\<open>left\<close> and inactive, the admin grant is deleted, and the rows of
  \<^verbatim>\<open>user_mutes\<close> of the target in the room are deleted.
\<close>

record kick_result =
  kr_roomId :: string
  kr_targetUid :: string
  kr_kickedBy :: string

definition is_member_of :: "string \<Rightarrow> string \<Rightarrow> member_row \<Rightarrow> bool" where
  "is_member_of roomId uid m = (cm_chatroom_id m = roomId \<and> cm_user_uid m = uid)"

definition kickUser :: "db \<Rightarrow> string \<Rightarrow> string \<Rightarrow> string \<Rightarrow> (error + kick_result) \<times> db" where
  "kickUser d roomId targetUid kickerUid =
     (case find_active_room d roomId of
        None \<Rightarrow> (Inl RoomNotFound, d)
      | Some chatroom \<Rightarrow>
          if cr_creator_uid chatroom \<noteq> kickerUid then (Inl OnlyCreatorCanKick, d)
          else if targetUid = kickerUid then (Inl CannotKickSelf, d)
          else
            (case find (\<lambda>m. is_member_of roomId targetUid m \<and> cm_is_active m)
                       (chatroom_members d) of
               None \<Rightarrow> (Inl NotAMember, d)
             | Some member \<Rightarrow>
                 (Inr \<lparr>kr_roomId = roomId, kr_targetUid = targetUid, kr_kickedBy = kickerUid\<rparr>,
                  d\<lparr>chatroom_members :=
                       map (\<lambda>m. if is_member_of roomId targetUid m
                                 then m\<lparr>cm_is_active := False, cm_status := LeftRoom\<rparr> else m)
                           (chatroom_members d),
                     chatroom_admins :=
                       filter (\<lambda>a. \<not> is_admin_row roomId targetUid a) (chatroom_admins d),
                     user_mutes :=
                       filter (\<lambda>r. \<not> is_mute_of roomId targetUid r) (user_mutes d)\<rparr>)))"

section \<open>Anonymous principals\<close>






section \<open>Joining a room\<close>

record room_info =
  ri_roomId :: string
  ri_name :: string
  ri_creatorUid :: string
  ri_createdAt :: time
  ri_isOwner :: "bool option"
  ri_userCount :: "nat option"

text \<open>
  \<^verbatim>\<open>joinChatroom(roomId, password, userUid)\<close>, the service behind \<^verbatim>\<open>POST /join\<close>.  The
  comparison of a password with the stored hash is \<^verbatim>\<open>bcrypt.compare\<close>, the parameter
  \<open>verifyPassword\<close>.  The returned object has the field \<^verbatim>\<open>isOwner\<close> and no
  \<^verbatim>\<open>userCount\<close>; the one of \<^verbatim>\<open>getChatroomInfo\<close> below has \<^verbatim>\<open>userCount\<close> and no
  \<^verbatim>\<open>isOwner\<close>.
\<close>

definition joinChatroom ::
    "(string \<Rightarrow> string \<Rightarrow> bool) \<Rightarrow> db \<Rightarrow> string \<Rightarrow> string option \<Rightarrow> string option \<Rightarrow> error + room_info" where
  "joinChatroom verifyPassword d roomId password userUid =
     (case find_active_room d roomId of
        None \<Rightarrow> Inl RoomNotFound
      | Some chatroom \<Rightarrow>
          let info = \<lparr>ri_roomId = cr_room_id chatroom, ri_name = cr_name chatroom,
                      ri_creatorUid = cr_creator_uid chatroom,
                      ri_createdAt = cr_created_at chatroom,
                      ri_isOwner = Some (userUid = Some (cr_creator_uid chatroom)),
                      ri_userCount = None\<rparr>
          in if truthy_str (cr_password_hash chatroom) then
               (if truthy_str userUid \<and> cr_creator_uid chatroom = the userUid then Inr info
                else if \<not> truthy_str password then Inl PasswordRequired
                else if \<not> verifyPassword (the password) (the (cr_password_hash chatroom))
                then Inl InvalidPassword
                else Inr info)
             else Inr info)"

text \<open>
  \<^verbatim>\<open>getChatroomInfo(roomId)\<close>, which the socket handlers use; \<^verbatim>\<open>getActiveUserCount\<close>
  returns the constant 0.
\<close>

definition getChatroomInfo :: "db \<Rightarrow> string \<Rightarrow> error + room_info" where
  "getChatroomInfo d roomId =
     (case find_active_room d roomId of
        None \<Rightarrow> Inl RoomNotFound
      | Some chatroom \<Rightarrow>
          Inr \<lparr>ri_roomId = cr_room_id chatroom, ri_name = cr_name chatroom,
               ri_creatorUid = cr_creator_uid chatroom, ri_createdAt = cr_created_at chatroom,
               ri_isOwner = None, ri_userCount = Some 0\<rparr>)"

text \<open>
  \<^verbatim>\<open>addMemberToChatroom\<close> is an \<^verbatim>\<open>INSERT OR REPLACE\<close>: a row of the same room and user is
  removed and the new row is added.  A rejected statement (the CHECK on \<^verbatim>\<open>user_type\<close>, the
  foreign key to the room) is logged and changes nothing.  \<^verbatim>\<open>setMemberOffline\<close> is an UPDATE.
\<close>

definition addMemberToChatroom ::
    "db \<Rightarrow> string \<Rightarrow> string \<Rightarrow> string \<Rightarrow> string \<Rightarrow> string option \<Rightarrow> db" where
  "addMemberToChatroom d roomId userUid userType nickname avatarUrl =
     (if userType \<in> {''user'', ''anonymous''} \<and> roomId \<in> set (map cr_room_id (chatrooms d))
      then d\<lparr>chatroom_members :=
                filter (\<lambda>m. \<not> is_member_of roomId userUid m) (chatroom_members d) @
                [\<lparr>cm_chatroom_id = roomId, cm_user_uid = userUid, cm_user_type = userType,
                  cm_nickname = nickname, cm_avatar_url = avatarUrl, cm_status = Online,
                  cm_is_active = True\<rparr>]\<rparr>
      else d)"

definition setMemberOffline :: "db \<Rightarrow> string \<Rightarrow> string \<Rightarrow> db" where
  "setMemberOffline d roomId userUid =
     d\<lparr>chatroom_members :=
         map (\<lambda>m. if is_member_of roomId userUid m then m\<lparr>cm_status := Offline\<rparr> else m)
             (chatroom_members d)\<rparr>"

section \<open>The presence registry and the socket handlers\<close>

text \<open>
  The server object holds \<^verbatim>\<open>onlineUsers\<close>, a Map from room ids to Sets of uids, and
  \<^verbatim>\<open>userSockets\<close>, a Map from uids to sockets.  A Set is the list of its elements in insertion
  order, which is the order in which JavaScript iterates it.  Sockets are objects that the
  handlers mutate (\<^verbatim>\<open>socket.currentRoom\<close>), so they live in a store indexed by a socket
  number, and \<^verbatim>\<open>userSockets\<close> holds such numbers.
\<close>

record principal =
  p_uid :: string
  p_nickname :: string
  p_avatarUrl :: "string option"
  p_type :: string

record socket =
  sk_user :: principal
  sk_currentRoom :: "string option"
  sk_rooms :: "string list"

record server =
  onlineUsers :: "string \<Rightarrow> string list option"
  userSockets :: "string \<Rightarrow> nat option"
  sockets :: "nat \<Rightarrow> socket option"
  store :: db

record online_entry =
  oe_uid :: string
  oe_nickname :: string
  oe_avatarUrl :: "string option"
  oe_type :: string
  oe_isAdmin :: bool
  oe_isCreator :: bool
  oe_isMuted :: bool
  oe_muteUntil :: "int option"

datatype event =
    UserJoined principal "online_entry list"
  | RoomJoined string room_info "online_entry list"
  | UserLeft string string "online_entry list"
  | ErrorEvent error

text \<open>
  \<^verbatim>\<open>socket.emit\<close> reaches the socket itself, \<^verbatim>\<open>socket.to(room).emit\<close> every socket in the
  room but the sender.
\<close>

datatype target = ToSocket nat | ToRoomExcept string nat

definition set_add :: "'a \<Rightarrow> 'a list \<Rightarrow> 'a list" where
  "set_add x xs = (if x \<in> set xs then xs else xs @ [x])"

definition set_delete :: "'a \<Rightarrow> 'a list \<Rightarrow> 'a list" where
  "set_delete x xs = filter (\<lambda>y. y \<noteq> x) xs"

text \<open>\<^verbatim>\<open>this.userSockets.get(uid)\<close>, followed to the socket object.\<close>

definition socket_of :: "server \<Rightarrow> string \<Rightarrow> socket option" where
  "socket_of st uid = (case userSockets st uid of None \<Rightarrow> None | Some sid \<Rightarrow> sockets st sid)"

definition initial_server :: "db \<Rightarrow> server" where
  "initial_server d = \<lparr>onlineUsers = Map.empty, userSockets = Map.empty, sockets = Map.empty,
                       store = d\<rparr>"

text \<open>
  The loop of \<^verbatim>\<open>getOnlineUserList\<close> over the uids of the room's Set: a uid without a socket in
  \<^verbatim>\<open>userSockets\<close> is skipped; for the others the entry is built from the socket's user and
  three queries, the last of which (\<^verbatim>\<open>getChatroomInfo\<close>) throws when the room is not active.
\<close>

fun online_entries :: "server \<Rightarrow> time \<Rightarrow> string \<Rightarrow> string list \<Rightarrow> error + online_entry list" where
  "online_entries st now roomId [] = Inr []"
| "online_entries st now roomId (uid # rest) =
     (case socket_of st uid of
        None \<Rightarrow> online_entries st now roomId rest
      | Some sk \<Rightarrow>
          let isAdmin = checkAdminPermission (store st) uid roomId;
              muteStatus = checkUserMuted (store st) now uid roomId
          in (case getChatroomInfo (store st) roomId of
                Inl e \<Rightarrow> Inl e
              | Inr chatroomInfo \<Rightarrow>
                  (case online_entries st now roomId rest of
                     Inl e \<Rightarrow> Inl e
                   | Inr userList \<Rightarrow>
                       Inr (\<lparr>oe_uid = p_uid (sk_user sk), oe_nickname = p_nickname (sk_user sk),
                             oe_avatarUrl = p_avatarUrl (sk_user sk), oe_type = p_type (sk_user sk),
                             oe_isAdmin = isAdmin,
                             oe_isCreator = (ri_creatorUid chatroomInfo = uid),
                             oe_isMuted = isMuted muteStatus,
                             oe_muteUntil = muteUntil muteStatus\<rparr> # userList))))"

definition getOnlineUserList :: "server \<Rightarrow> time \<Rightarrow> string \<Rightarrow> error + online_entry list" where
  "getOnlineUserList st now roomId =
     (case onlineUsers st roomId of
        None \<Rightarrow> Inr []
      | Some onlineUserIds \<Rightarrow> online_entries st now roomId onlineUserIds)"

text \<open>The \<^verbatim>\<open>connection\<close> event: the socket is stored under the uid of its user.\<close>

definition on_connection :: "nat \<Rightarrow> principal \<Rightarrow> server \<Rightarrow> server" where
  "on_connection sid user st =
     st\<lparr>sockets := (sockets st)(sid \<mapsto> \<lparr>sk_user = user, sk_currentRoom = None, sk_rooms = []\<rparr>),
        userSockets := (userSockets st)(p_uid user \<mapsto> sid)\<rparr>"

text \<open>
  The \<^verbatim>\<open>join-room\<close> handler.  Its payload is the room id alone.  After
  \<^verbatim>\<open>getChatroomInfo\<close> has found the room, the socket joins the Socket.IO room and remembers
  it as its current room, the member row is written and the uid is added to the room's Set
  (\<open>join_state\<close>); then the online list is computed and sent.  Whatever is thrown inside is
  caught and sent to the socket as an \<^verbatim>\<open>error\<close> event; what was changed before stays.
  \<open>on_join_room\<close> is a join during which no other event is handled.
\<close>

definition join_state :: "socket \<Rightarrow> nat \<Rightarrow> string \<Rightarrow> server \<Rightarrow> server" where
  "join_state sk sid roomId st =
     st\<lparr>sockets := (sockets st)(sid \<mapsto>
           sk\<lparr>sk_rooms := set_add roomId (sk_rooms sk), sk_currentRoom := Some roomId\<rparr>),
        store := addMemberToChatroom (store st) roomId (p_uid (sk_user sk))
                   (p_type (sk_user sk)) (p_nickname (sk_user sk)) (p_avatarUrl (sk_user sk)),
        onlineUsers := (onlineUsers st)(roomId \<mapsto>
           set_add (p_uid (sk_user sk))
             (case onlineUsers st roomId of None \<Rightarrow> [] | Some l \<Rightarrow> l))\<rparr>"

definition on_join_room ::
    "time \<Rightarrow> nat \<Rightarrow> string \<Rightarrow> server \<Rightarrow> server \<times> (target \<times> event) list" where
  "on_join_room now sid roomId st =
     (case sockets st sid of
        None \<Rightarrow> (st, [])
      | Some sk \<Rightarrow>
          (case getChatroomInfo (store st) roomId of
             Inl e \<Rightarrow> (st, [(ToSocket sid, ErrorEvent e)])
           | Inr chatroomInfo \<Rightarrow>
               let st1 = join_state sk sid roomId st in
               (case getOnlineUserList st1 now roomId of
                  Inl e \<Rightarrow> (st1, [(ToSocket sid, ErrorEvent e)])
                | Inr onlineUserList \<Rightarrow>
                    (st1, [(ToRoomExcept roomId sid, UserJoined (sk_user sk) onlineUserList),
                           (ToSocket sid, RoomJoined roomId chatroomInfo onlineUserList)]))))"

text \<open>
  \<^verbatim>\<open>handleUserLeaveRoom(socket)\<close>, called by the \<^verbatim>\<open>leave-room\<close> and \<^verbatim>\<open>disconnect\<close> handlers,
  is an async function that neither handler waits for.  It tests \<^verbatim>\<open>socket.currentRoom\<close>
  and reads the room id before its first \<^verbatim>\<open>await\<close>, and it clears \<^verbatim>\<open>socket.currentRoom\<close>
  only at its end, so it is modelled in two parts.

  \<open>leave_start\<close> is the part that runs inside the event that calls the function: nothing
  happens when \<^verbatim>\<open>socket.currentRoom\<close> is not truthy; otherwise the room id is read, the
  UPDATE of \<^verbatim>\<open>setMemberOffline\<close> is sent to the store, and the function is suspended.  The
  result says whether a continuation is pending, and for which room.
\<close>

definition leave_start :: "nat \<Rightarrow> server \<Rightarrow> string option \<times> server" where
  "leave_start sid st =
     (case sockets st sid of
        None \<Rightarrow> (None, st)
      | Some sk \<Rightarrow>
          if \<not> truthy_str (sk_currentRoom sk) then (None, st)
          else (sk_currentRoom sk,
                st\<lparr>store := setMemberOffline (store st) (the (sk_currentRoom sk))
                                (p_uid (sk_user sk))\<rparr>))"

text \<open>
  \<open>leave_resume\<close> is the continuation, for the room id that was read at the start: the uid
  is deleted from the room's Set, the Set itself being deleted from the Map when it becomes
  empty (\<open>leave_state\<close>); then the online list is computed and sent, and the socket leaves
  the Socket.IO room and forgets its current room.  When \<^verbatim>\<open>getOnlineUserList\<close> throws, the
  function stops there: the uid is already out of the Set, nothing is emitted and
  \<^verbatim>\<open>socket.currentRoom\<close> keeps its value.  The continuation works on the socket object as
  it is when it runs.
\<close>

definition leave_state :: "socket \<Rightarrow> string \<Rightarrow> server \<Rightarrow> server" where
  "leave_state sk roomId st =
     st\<lparr>onlineUsers :=
          (case onlineUsers st roomId of
             None \<Rightarrow> onlineUsers st
           | Some l \<Rightarrow>
               if set_delete (p_uid (sk_user sk)) l = []
               then (onlineUsers st)(roomId := None)
               else (onlineUsers st)(roomId \<mapsto> set_delete (p_uid (sk_user sk)) l))\<rparr>"

definition leave_resume ::
    "time \<Rightarrow> nat \<Rightarrow> string \<Rightarrow> server \<Rightarrow> server \<times> (target \<times> event) list" where
  "leave_resume now sid roomId st =
     (case sockets st sid of
        None \<Rightarrow> (st, [])
      | Some sk \<Rightarrow>
          let st1 = leave_state sk roomId st in
          (case getOnlineUserList st1 now roomId of
             Inl e \<Rightarrow> (st1, [])
           | Inr onlineUserList \<Rightarrow>
               (st1\<lparr>sockets := (sockets st1)(sid \<mapsto>
                       sk\<lparr>sk_rooms := set_delete roomId (sk_rooms sk),
                          sk_currentRoom := None\<rparr>)\<rparr>,
                [(ToRoomExcept roomId sid,
                  UserLeft (p_uid (sk_user sk)) (p_nickname (sk_user sk)) onlineUserList)])))"

text \<open>
  \<open>handleUserLeaveRoom\<close> is a call whose continuation runs before any other event is
  handled.
\<close>

definition handleUserLeaveRoom ::
    "time \<Rightarrow> nat \<Rightarrow> server \<Rightarrow> server \<times> (target \<times> event) list" where
  "handleUserLeaveRoom now sid st =
     (case leave_start sid st of
        (None, st') \<Rightarrow> (st', [])
      | (Some roomId, st') \<Rightarrow> leave_resume now sid roomId st')"

text \<open>
  The \<^verbatim>\<open>disconnect\<close> handler is
  \<^verbatim>\<open>this.handleUserLeaveRoom(socket); this.userSockets.delete(socket.user.uid);\<close>.  The deletion
  happens while the leave is suspended at its first \<^verbatim>\<open>await\<close>, so the continuation of the
  leave sees the Map without the uid.  \<open>disconnect_start\<close> is what happens inside the event,
  and \<open>on_disconnect\<close> a disconnect whose continuation runs before any other event.
\<close>

definition disconnect_start :: "nat \<Rightarrow> server \<Rightarrow> string option \<times> server" where
  "disconnect_start sid st =
     (case sockets st sid of
        None \<Rightarrow> (None, st)
      | Some sk \<Rightarrow>
          (case leave_start sid st of
             (pending, st') \<Rightarrow>
               (pending, st'\<lparr>userSockets := (userSockets st')(p_uid (sk_user sk) := None)\<rparr>)))"

definition on_disconnect ::
    "time \<Rightarrow> nat \<Rightarrow> server \<Rightarrow> server \<times> (target \<times> event) list" where
  "on_disconnect now sid st =
     (case disconnect_start sid st of
        (None, st') \<Rightarrow> (st', [])
      | (Some roomId, st') \<Rightarrow> leave_resume now sid roomId st')"

section \<open>Notions used to state the presence properties\<close>

text \<open>
  These are not functions of the source.  \<open>room_set\<close> is the Set of a room (empty when the
  Map has no entry); \<open>online_count\<close> is the number of entries of \<^verbatim>\<open>getOnlineUserList\<close> that
  carry a given uid, \<open>None\<close> when the list cannot be computed; \<open>registry_ok\<close> says that the
  list of a room represents a Set and that a socket stored under a uid of the room belongs to
  a user with that uid.
\<close>

definition room_set :: "server \<Rightarrow> string \<Rightarrow> string list" where
  "room_set st roomId = (case onlineUsers st roomId of None \<Rightarrow> [] | Some l \<Rightarrow> l)"

definition online_count :: "server \<Rightarrow> time \<Rightarrow> string \<Rightarrow> string \<Rightarrow> nat option" where
  "online_count st now roomId uid =
     (case getOnlineUserList st now roomId of
        Inl e \<Rightarrow> None
      | Inr l \<Rightarrow> Some (length (filter (\<lambda>e. oe_uid e = uid) l)))"

definition stored_under_own_uid :: "server \<Rightarrow> string \<Rightarrow> bool" where
  "stored_under_own_uid st uid =
     (case socket_of st uid of None \<Rightarrow> True | Some sk \<Rightarrow> p_uid (sk_user sk) = uid)"

definition registry_ok :: "server \<Rightarrow> string \<Rightarrow> bool" where
  "registry_ok st roomId =
     (distinct (room_set st roomId) \<and> list_all (stored_under_own_uid st) (room_set st roomId))"

text \<open>
  The invariant of the registry: every list stands for a Set, and \<^verbatim>\<open>userSockets\<close> maps a
  uid only to an existing socket of a user with that uid.
\<close>

definition registry_inv :: "server \<Rightarrow> bool" where
  "registry_inv st \<longleftrightarrow>
     (\<forall>R. distinct (room_set st R)) \<and>
     (\<forall>u s. userSockets st u = Some s \<longrightarrow>
        (\<exists>sk. sockets st s = Some sk \<and> p_uid (sk_user sk) = u))"

text \<open>The state after a \<^verbatim>\<open>join-room\<close> event and after a leave.\<close>

definition after_join :: "time \<Rightarrow> nat \<Rightarrow> string \<Rightarrow> server \<Rightarrow> server" where
  "after_join now sid roomId st = fst (on_join_room now sid roomId st)"

definition after_leave :: "time \<Rightarrow> nat \<Rightarrow> server \<Rightarrow> server" where
  "after_leave now sid st = fst (handleUserLeaveRoom now sid st)"

text \<open>
  The states the server can be in: it starts with empty Maps, and each event runs its handler.
  A connection gets a socket number that is not in use; the two parts of a leave and of a
  disconnect are steps of their own, so that other events may come between them (a
  continuation for any room is allowed, which covers the ones that are pending); the store
  may be changed at any time by the operations that do not touch the registry.
\<close>

inductive reachable :: "server \<Rightarrow> bool" where
  start: "reachable (initial_server d)"
| connection: "reachable st \<Longrightarrow> sockets st sid = None \<Longrightarrow> reachable (on_connection sid user st)"
| join_room: "reachable st \<Longrightarrow> reachable (after_join now sid roomId st)"
| leave_begins: "reachable st \<Longrightarrow> reachable (snd (leave_start sid st))"
| leave_resumes: "reachable st \<Longrightarrow> reachable (fst (leave_resume now sid roomId st))"
| disconnect_begins: "reachable st \<Longrightarrow> reachable (snd (disconnect_start sid st))"
| store_change: "reachable st \<Longrightarrow> reachable (st\<lparr>store := d\<rparr>)"

section \<open>Example data\<close>

text \<open>
  A small store used to run the operations on concrete inputs: room \<open>ABCD1234\<close> without a
  password, created by the registered user \<open>10000001\<close>; a second registered user \<open>10000002\<close>
  who was muted at time 1000 for 60 seconds; and an anonymous user created at time 0, whose
  initial mute lasts until 600000.
\<close>

definition ex_room :: chatroom_row where
  "ex_room = \<lparr>cr_room_id = ''ABCD1234'', cr_name = ''lobby'', cr_password_hash = None,
              cr_creator_uid = ''10000001'', cr_is_active = True, cr_created_at = 0\<rparr>"

definition ex_anon :: anon_row where
  "ex_anon = \<lparr>au_uid = ''ANON000000000001'', au_chatroom_id = ''ABCD1234'',
              au_nickname = ''anon0001'', au_avatar_url = None, au_mute_until = Some 600000,
              au_is_active = True, au_join_time = 0\<rparr>"

definition ex_db :: db where
  "ex_db = \<lparr>users = [\<lparr>u_uid = ''10000001'', u_nickname = ''owner'', u_avatar_url = None\<rparr>,
                     \<lparr>u_uid = ''10000002'', u_nickname = ''guest'', u_avatar_url = None\<rparr>],
            anonymous_users = [ex_anon], chatrooms = [ex_room], chatroom_admins = [],
            messages = [], msg_seq = 0,
            user_mutes = [\<lparr>mu_chatroom_id = ''ABCD1234'', mu_user_uid = ''10000002'',
                           mu_muted_by = ''10000001'', mu_reason = [], mu_mute_until = 61000,
                           mu_is_active = True, mu_created_at = 1000\<rparr>],
            chatroom_members = [], files = []\<rparr>"

definition text_msg :: "string \<Rightarrow> string \<Rightarrow> string \<Rightarrow> messageData" where
  "text_msg uid ty c =
     \<lparr>md_chatroomId = ''ABCD1234'', md_userUid = uid, md_userType = Str ty,
      md_content = Some c, md_messageType = Undefined, md_imageUrl = None,
      md_replyToMessageId = None, md_bilibiliId = None, md_markdownContent = None,
      md_fileId = None, md_fileName = None, md_fileSize = None, md_fileExpiry = None\<rparr>"

definition markdown_msg :: "string \<Rightarrow> string \<Rightarrow> string \<Rightarrow> messageData" where
  "markdown_msg uid title body =
     \<lparr>md_chatroomId = ''ABCD1234'', md_userUid = uid, md_userType = Str ''user'',
      md_content = Some title, md_messageType = Str ''markdown'', md_imageUrl = None,
      md_replyToMessageId = None, md_bilibiliId = None, md_markdownContent = Some body,
      md_fileId = None, md_fileName = None, md_fileSize = None, md_fileExpiry = None\<rparr>"

text \<open>
  A store with one file message: user \<open>10000002\<close> sent file \<open>F1\<close> (stored as \<open>f1.bin\<close>) as
  message 1, and the room's creator replied to it with message 2.
\<close>

definition ex_file_msg :: message_row where
  "ex_file_msg =
     \<lparr>msg_id = 1, msg_message_id = ''m-1'', msg_chatroom_id = ''ABCD1234'',
      msg_sender_uid = ''10000002'', msg_sender_type = ''user'', msg_content = ''report.pdf'',
      msg_message_type = Some ''file'', msg_image_url = None, msg_reply_to_message_id = None,
      msg_bilibili_bv = None, msg_markdown_content = None, msg_file_id = Some ''F1'',
      msg_file_name = Some ''report.pdf'', msg_file_size = Some 2048,
      msg_file_expiry = Some 1800000, msg_is_deleted = False, msg_created_at = 1000\<rparr>"

definition ex_reply_msg :: message_row where
  "ex_reply_msg =
     \<lparr>msg_id = 2, msg_message_id = ''m-2'', msg_chatroom_id = ''ABCD1234'',
      msg_sender_uid = ''10000001'', msg_sender_type = ''user'', msg_content = ''thanks'',
      msg_message_type = Some ''text'', msg_image_url = None, msg_reply_to_message_id = Some 1,
      msg_bilibili_bv = None, msg_markdown_content = None, msg_file_id = None,
      msg_file_name = None, msg_file_size = None, msg_file_expiry = None,
      msg_is_deleted = False, msg_created_at = 2000\<rparr>"

definition ex_file_db :: db where
  "ex_file_db =
     ex_db\<lparr>messages := [ex_file_msg, ex_reply_msg], msg_seq := 2,
           files := [\<lparr>f_file_id = ''F1'', f_stored_name = ''f1.bin'',
                      f_message_id = Some ''m-1'', f_is_expired = False\<rparr>]\<rparr>"

text \<open>
  Two calls of \<^verbatim>\<open>deleteMessage\<close> for message 1 of that store are under way, call 0 by the
  sender of the message and call 1 by the creator of the room.  In this order of their
  statements both read the message and pass the permission check, call 0 begins its
  transaction, call 1 is rejected at \<^verbatim>\<open>BEGIN\<close> and rolls back, and call 0 executes the rest
  of its statements.
\<close>

definition overlap_schedule :: "nat list" where
  "overlap_schedule = [0, 1, 0, 0, 1, 0, 1, 1, 0, 0, 0, 0, 0, 0]"

text \<open>
  The same two calls in another order: call 0 has already cleared the reply link when call 1
  rolls back.
\<close>

definition late_rollback_schedule :: "nat list" where
  "late_rollback_schedule = [0, 1, 0, 0, 1, 0, 1, 0, 1, 0, 0, 0, 0]"

definition no_faults :: faults where
  "no_faults = \<lparr>fl_begin = False, fl_clear_replies = False, fl_get_file = False,
                fl_update_file = False, fl_unlink = False, fl_delete = False, fl_commit = False\<rparr>"

definition no_bulk_faults :: bulk_faults where
  "no_bulk_faults = \<lparr>bf_begin = False, bf_select = False, bf_mark = False,
                     bf_release = (\<lambda>k. False), bf_unlink = (\<lambda>k. False), bf_commit = False\<rparr>"

definition ex_markdown_row :: message_row where
  "ex_markdown_row =
     \<lparr>msg_id = 1, msg_message_id = ''m-3'', msg_chatroom_id = ''ABCD1234'',
      msg_sender_uid = ''10000001'', msg_sender_type = ''user'', msg_content = ''&lt;T&gt;'',
      msg_message_type = Some ''markdown'', msg_image_url = None, msg_reply_to_message_id = None,
      msg_bilibili_bv = None, msg_markdown_content = Some ''<b>bold</b>'', msg_file_id = None,
      msg_file_name = None, msg_file_size = None, msg_file_expiry = None,
      msg_is_deleted = False, msg_created_at = 2000\<rparr>"

text \<open>
  The example room with its two members present, and the same store after the creator has
  muted the anonymous member for an hour at time 1000.
\<close>

definition kick_db :: db where
  "kick_db =
     ex_db\<lparr>chatroom_members :=
       [\<lparr>cm_chatroom_id = ''ABCD1234'', cm_user_uid = ''10000001'', cm_user_type = ''user'',
         cm_nickname = ''owner'', cm_avatar_url = None, cm_status = Online, cm_is_active = True\<rparr>,
        \<lparr>cm_chatroom_id = ''ABCD1234'', cm_user_uid = ''ANON000000000001'',
         cm_user_type = ''anonymous'', cm_nickname = ''anon0001'', cm_avatar_url = None,
         cm_status = Online, cm_is_active = True\<rparr>]\<rparr>"

definition kick_db_muted :: db where
  "kick_db_muted =
     snd (muteUser 1000 kick_db ''ABCD1234'' ''ANON000000000001'' ''10000001'' 3600 ''spam'')"


definition pw_room :: chatroom_row where
  "pw_room = \<lparr>cr_room_id = ''5EC2E701'', cr_name = ''private'',
              cr_password_hash = Some ''$2a$12$abcdefghijklmnopqrstuv'',
              cr_creator_uid = ''10000001'', cr_is_active = True, cr_created_at = 0\<rparr>"

definition pw_db :: db where
  "pw_db = ex_db\<lparr>chatrooms := [ex_room, pw_room]\<rparr>"

definition guest :: principal where
  "guest = \<lparr>p_uid = ''10000002'', p_nickname = ''guest'', p_avatarUrl = None, p_type = ''user''\<rparr>"

definition pw_server :: server where
  "pw_server = on_connection 7 guest (initial_server pw_db)"

text \<open>
  The creator of the example room connected once (socket 1), and the same user connected
  from two tabs (sockets 1 and 2) with the first tab closed again at time 1000.
\<close>

definition owner :: principal where
  "owner = \<lparr>p_uid = ''10000001'', p_nickname = ''owner'', p_avatarUrl = None, p_type = ''user''\<rparr>"

definition one_tab_server :: server where
  "one_tab_server = on_connection 1 owner (initial_server ex_db)"

definition two_tabs_server :: server where
  "two_tabs_server =
     fst (on_disconnect 1000 1 (on_connection 2 owner (on_connection 1 owner (initial_server ex_db))))"

text \<open>
  The creator has joined the example room on socket 1.  Then the \<^verbatim>\<open>leave-room\<close> event and
  the \<^verbatim>\<open>disconnect\<close> event of that socket arrive one after the other, before the leave that
  the first one started has gone on: in \<open>closing_server\<close> two continuations are pending.
\<close>

definition joined_server :: server where
  "joined_server = after_join 1000 1 ''ABCD1234'' one_tab_server"

definition closing_server :: server where
  "closing_server = snd (disconnect_start 1 (snd (leave_start 1 joined_server)))"


section \<open>Facts about the utilities\<close>

lemmas ex_defs = ex_db_def ex_room_def ex_anon_def text_msg_def markdown_msg_def
  ex_file_db_def ex_file_msg_def ex_reply_msg_def no_faults_def no_bulk_faults_def

lemmas mute_defs = checkUserMuted_def is_mute_of_def is_anon_of_def isUserMuted_def
  getMuteTimeRemaining_def truthy_int_def valid_date_def

lemmas validate_defs = validate_def messageType_of_def blank_def trim_def is_space_def
  truthy_str_def not_positive_def

lemmas admin_defs = checkAdminPermission_def find_room_def is_admin_row_def

lemmas kick_defs = kickUser_def find_active_room_def is_member_of_def is_admin_row_def
  is_mute_of_def

lemmas presence_defs = on_join_room_def handleUserLeaveRoom_def on_disconnect_def
  leave_start_def leave_resume_def disconnect_start_def on_connection_def initial_server_def getOnlineUserList_def getChatroomInfo_def
  find_active_room_def addMemberToChatroom_def setMemberOffline_def set_add_def set_delete_def
  socket_of_def is_member_of_def join_state_def leave_state_def

lemmas delete_defs = delete_transaction_def clear_replies_def release_file_def
  unlink_stored_def delete_row_def delete_allowed_def truthy_str_def

lemma find_SomeD: "find P xs = Some x \<Longrightarrow> P x \<and> x \<in> set xs"
  by (induction xs) (auto split: if_splits)


lemma replace_all_removes: "c \<notin> set r \<Longrightarrow> c \<notin> set (replace_all c r s)"
  by (induction s) (auto simp: replace_all_def)

lemma replace_all_keeps_out: "x \<notin> set s \<Longrightarrow> x \<notin> set r \<Longrightarrow> x \<notin> set (replace_all c r s)"
  by (induction s) (auto simp: replace_all_def)

lemma sanitizeText_no_markup: "set (sanitizeText t) \<inter> markup_chars = {}"
proof (cases "truthy_str t")
  case False
  then show ?thesis by (simp add: sanitizeText_def)
next
  case True
  let ?s1 = "replace_all (CHR ''<'') ''&lt;'' (trim (the t))"
  let ?s2 = "replace_all (CHR ''>'') ''&gt;'' ?s1"
  let ?s3 = "replace_all (CHR 0x22) ''&quot;'' ?s2"
  let ?s4 = "replace_all (CHR 0x27) ''&#x27;'' ?s3"
  let ?s5 = "replace_all (CHR ''/'') ''&#x2F;'' ?s4"
  have 1: "CHR ''<'' \<notin> set ?s1" by (rule replace_all_removes) simp
  have 2: "CHR ''<'' \<notin> set ?s2" "CHR ''>'' \<notin> set ?s2"
    using 1 by (simp_all add: replace_all_removes replace_all_keeps_out)
  have 3: "CHR ''<'' \<notin> set ?s3" "CHR ''>'' \<notin> set ?s3" "CHR 0x22 \<notin> set ?s3"
    using 2 by (simp_all add: replace_all_removes replace_all_keeps_out)
  have 4: "CHR ''<'' \<notin> set ?s4" "CHR ''>'' \<notin> set ?s4" "CHR 0x22 \<notin> set ?s4"
    "CHR 0x27 \<notin> set ?s4"
    using 3 by (simp_all add: replace_all_removes replace_all_keeps_out)
  have 5: "CHR ''<'' \<notin> set ?s5" "CHR ''>'' \<notin> set ?s5" "CHR 0x22 \<notin> set ?s5"
    "CHR 0x27 \<notin> set ?s5" "CHR ''/'' \<notin> set ?s5"
    using 4 by (simp_all add: replace_all_removes replace_all_keeps_out)
  have "sanitizeText t = ?s5" using True by (simp add: sanitizeText_def)
  with 5 show ?thesis by (simp add: markup_chars_def)
qed


text \<open>
  Where \<^verbatim>\<open>checkUserMuted\<close> calls \<^verbatim>\<open>getMuteTimeRemaining\<close> the result is a number: the time
  that is left.
\<close>

lemma remaining_defined:
  "isUserMuted now mu \<Longrightarrow> getMuteTimeRemaining now mu = Some (the mu - now)"
  by (auto simp: isUserMuted_def getMuteTimeRemaining_def split: if_splits)

section \<open>Sending\<close>

lemma send_invalid: "validate md = Some e \<Longrightarrow> sendMessage now uuid d md = (Inl e, d)"
  by (simp add: sendMessage_def)

lemma send_muted:
  "validate md = None \<Longrightarrow> isMuted (checkUserMuted d now (md_userUid md) (md_chatroomId md)) \<Longrightarrow>
   sendMessage now uuid d md =
     (Inl (Muted (ceil_div (remaining (checkUserMuted d now (md_userUid md) (md_chatroomId md)))
        60000)), d)"
  by (simp add: sendMessage_def Let_def)

lemma ex_anon_muted: "isMuted (checkUserMuted ex_db 1000 ''ANON000000000001'' ''ABCD1234'')"
  by (simp add: ex_defs mute_defs)

lemma ex_user_muted:
  "checkUserMuted ex_db 2000 ''10000002'' ''ABCD1234'' =
     \<lparr>isMuted = True, muteUntil = Some 61000, remaining = 59000\<rparr>"
  by (simp add: ex_defs mute_defs)

text \<open>
  Claim C1, as amended.  A principal with an active mute who calls \<^verbatim>\<open>sendMessage\<close> is always
  rejected and the store (so the messages table) is left as it was.  The error is the mute
  error whenever the payload passes validation; a payload that fails validation is rejected
  with its validation error instead, because validation runs first.
\<close>

theorem send_muted_never_persists:
  "isMuted (checkUserMuted d now (md_userUid md) (md_chatroomId md)) \<Longrightarrow>
   (\<exists>e. sendMessage now uuid d md = (Inl e, d)) \<and>
   (validate md = None \<longrightarrow> (\<exists>k. fst (sendMessage now uuid d md) = Inl (Muted k)))"
  by (cases "validate md") (auto simp: send_invalid send_muted)

theorem send_muted_never_persists_witness:
  "isMuted (checkUserMuted ex_db 1000 ''ANON000000000001'' ''ABCD1234'') \<and>
   validate (text_msg ''ANON000000000001'' ''anonymous'' ''hi'') = None \<and>
   (\<exists>e. sendMessage 1000 ''m-1'' ex_db (text_msg ''ANON000000000001'' ''anonymous'' ''hi'')
          = (Inl e, ex_db)) \<and>
   (\<exists>k. fst (sendMessage 1000 ''m-1'' ex_db (text_msg ''ANON000000000001'' ''anonymous'' ''hi''))
          = Inl (Muted k))"
proof -
  have v: "validate (text_msg ''ANON000000000001'' ''anonymous'' ''hi'') = None"
    by (simp add: text_msg_def validate_defs)
  show ?thesis
    using send_muted_never_persists [where d = ex_db and now = 1000 and uuid = "''m-1''"
        and md = "text_msg ''ANON000000000001'' ''anonymous'' ''hi''"] ex_anon_muted v
    by (simp add: text_msg_def)
qed

text \<open>
  The claim as it is written fails: the anonymous user of the example is muted at time 1000,
  and a text of 1001 characters is rejected with the length error of the validation, not with
  the mute error.
\<close>

theorem send_muted_counterexample:
  "isMuted (checkUserMuted ex_db 1000 ''ANON000000000001'' ''ABCD1234'') \<and>
   sendMessage 1000 ''m-1'' ex_db
     (text_msg ''ANON000000000001'' ''anonymous'' (CHR ''a'' # replicate 1000 (CHR ''a'')))
   = (Inl ContentTooLong, ex_db)"
  by (simp add: ex_anon_muted send_invalid text_msg_def validate_defs)

text \<open>
  Claim C9, as amended.  Validation precedes the mute check: for a muted sender the error of
  \<^verbatim>\<open>sendMessage\<close> is the validation error when the payload violates a validation rule, and
  the mute error (with the remaining minutes, rounded up) exactly when the payload is valid.
\<close>

theorem send_validation_precedes_mute:
  "isMuted (checkUserMuted d now (md_userUid md) (md_chatroomId md)) \<Longrightarrow>
   fst (sendMessage now uuid d md) =
     (case validate md of
        Some e \<Rightarrow> Inl e
      | None \<Rightarrow> Inl (Muted (ceil_div
          (remaining (checkUserMuted d now (md_userUid md) (md_chatroomId md))) 60000)))"
  by (cases "validate md") (simp_all add: send_invalid send_muted)

theorem send_validation_precedes_mute_witness:
  "isMuted (checkUserMuted ex_db 2000 ''10000002'' ''ABCD1234'') \<and>
   fst (sendMessage 2000 ''m-2'' ex_db (text_msg ''10000002'' ''user'' ''hello'')) = Inl (Muted 1) \<and>
   fst (sendMessage 2000 ''m-2'' ex_db (text_msg ''10000002'' ''user'' ''   '')) = Inl ContentEmpty"
  using send_validation_precedes_mute [where d = ex_db and now = 2000 and uuid = "''m-2''"
          and md = "text_msg ''10000002'' ''user'' ''hello''"]
        send_validation_precedes_mute [where d = ex_db and now = 2000 and uuid = "''m-2''"
          and md = "text_msg ''10000002'' ''user'' ''   ''"]
        ex_user_muted
  by (simp add: text_msg_def validate_defs ceil_div_def)

text \<open>
  The claim as it is written fails: the registered user of the example is muted at time 2000
  and submits a text of 1001 characters; the rejection is the validation error.
\<close>

theorem send_validation_precedes_mute_counterexample:
  "isMuted (checkUserMuted ex_db 2000 ''10000002'' ''ABCD1234'') \<and>
   length (CHR ''x'' # replicate 1000 (CHR ''x'')) = 1001 \<and>
   fst (sendMessage 2000 ''m-2'' ex_db
     (text_msg ''10000002'' ''user'' (CHR ''x'' # replicate 1000 (CHR ''x'')))) = Inl ContentTooLong"
  by (simp add: ex_user_muted send_invalid text_msg_def validate_defs)

lemma send_accepted_row:
  assumes "sendMessage now uuid d md = (Inr r, d')"
  shows "messages d' = messages d @ [sr_row r]"
    and "msg_content (sr_row r) =
           (if truthy_str (md_content md) then sanitizeText (md_content md) else [])"
    and "msg_markdown_content (sr_row r) = md_markdownContent md"
    and "msg_file_name (sr_row r) = md_fileName md"
    and "msg_image_url (sr_row r) = md_imageUrl md"
    and "msg_bilibili_bv (sr_row r) = md_bilibiliId md"
  using assms
  by (auto simp: sendMessage_def Let_def split: option.splits if_splits)

text \<open>
  Claim C8, as amended.  For every message accepted by \<^verbatim>\<open>sendMessage\<close> exactly one row is
  appended, and its \<^verbatim>\<open>content\<close> column (the text, the image caption, the markdown title)
  contains none of the characters \<open><\<close>, \<open>>\<close>, double quote, single quote and \<open>/\<close>.  The
  markdown body, the file name, the image URL and the video id are stored as they were
  supplied.
\<close>

theorem send_sanitizes_content_only:
  "sendMessage now uuid d md = (Inr r, d') \<Longrightarrow>
   messages d' = messages d @ [sr_row r] \<and>
   set (msg_content (sr_row r)) \<inter> markup_chars = {} \<and>
   msg_markdown_content (sr_row r) = md_markdownContent md \<and>
   msg_file_name (sr_row r) = md_fileName md \<and>
   msg_image_url (sr_row r) = md_imageUrl md \<and>
   msg_bilibili_bv (sr_row r) = md_bilibiliId md"
  using send_accepted_row [of now uuid d md r d'] sanitizeText_no_markup [of "md_content md"]
  by (simp add: markup_chars_def)

lemma ex_markdown_sent:
  "sendMessage 2000 ''m-3'' ex_db (markdown_msg ''10000001'' ''<T>'' ''<b>bold</b>'') =
     (Inr \<lparr>sr_row = ex_markdown_row, sr_createdAt = 2000,
           sr_user = \<lparr>ui_uid = ''10000001'', ui_nickname = ''owner'', ui_avatar_url = None\<rparr>,
           sr_isAdmin = True, sr_replyToMessage = None\<rparr>,
      ex_db\<lparr>messages := [ex_markdown_row], msg_seq := 1\<rparr>)"
  by (simp add: sendMessage_def Let_def ex_defs ex_markdown_row_def validate_defs mute_defs
      admin_defs sanitizeText_def replace_all_def insert_allowed_def next_msg_id_def
      userType_of_def sender_info_def reg_info_def sql_now_def truthy_nat_def)

theorem send_sanitizes_content_only_witness:
  "sendMessage 2000 ''m-3'' ex_db (markdown_msg ''10000001'' ''<T>'' ''<b>bold</b>'') =
     (Inr \<lparr>sr_row = ex_markdown_row, sr_createdAt = 2000,
           sr_user = \<lparr>ui_uid = ''10000001'', ui_nickname = ''owner'', ui_avatar_url = None\<rparr>,
           sr_isAdmin = True, sr_replyToMessage = None\<rparr>,
      ex_db\<lparr>messages := [ex_markdown_row], msg_seq := 1\<rparr>) \<and>
   msg_content ex_markdown_row = ''&lt;T&gt;'' \<and>
   set (msg_content ex_markdown_row) \<inter> markup_chars = {}"
  using send_sanitizes_content_only [OF ex_markdown_sent] ex_markdown_sent
  by (simp add: ex_markdown_row_def)

text \<open>
  The claim as it is written fails for the markdown body: the accepted markdown message of
  the example is stored with the body \<open><b>bold</b>\<close> unchanged.
\<close>

theorem send_sanitizes_counterexample:
  "fst (sendMessage 2000 ''m-3'' ex_db (markdown_msg ''10000001'' ''<T>'' ''<b>bold</b>'')) =
     Inr \<lparr>sr_row = ex_markdown_row, sr_createdAt = 2000,
          sr_user = \<lparr>ui_uid = ''10000001'', ui_nickname = ''owner'', ui_avatar_url = None\<rparr>,
          sr_isAdmin = True, sr_replyToMessage = None\<rparr> \<and>
   map msg_markdown_content (messages (snd (sendMessage 2000 ''m-3'' ex_db
       (markdown_msg ''10000001'' ''<T>'' ''<b>bold</b>'')))) = [Some ''<b>bold</b>''] \<and>
   CHR ''<'' \<in> set ''<b>bold</b>'' \<and> CHR ''<'' \<in> markup_chars"
  by (simp add: ex_markdown_sent ex_markdown_row_def markup_chars_def)

section \<open>Deleting\<close>

subsection \<open>A call that runs alone\<close>

lemma run_finished: "delete_run fl k u r (Finished res, cn, dk) = (res, cn, dk)"
  by simp

declare delete_run.simps [simp del]

lemma run_step:
  "steps_left pc \<noteq> 0 \<Longrightarrow>
   delete_run fl k u r (pc, cn, dk) = delete_run fl k u r (delete_step fl k u r (pc, cn, dk))"
  by (cases pc) (simp_all add: delete_run.simps)

lemma run_rollback:
  "delete_run fl k u r (At_rollback, \<lparr>cn_store = d', cn_saved = Some d\<rparr>, dk) =
     (Inl DeleteFailed, idle d, dk)"
  by (subst run_step) (simp_all add: run_finished rollback_def idle_def)

lemma run_commit:
  "delete_run fl k u r (At_commit, \<lparr>cn_store = d', cn_saved = Some d\<rparr>, dk) =
     (if fl_commit fl then (Inl DeleteFailed, idle d, dk)
      else (Inr \<lparr>dr_messageId = k, dr_deletedBy = u\<rparr>, idle d', dk))"
  by (subst run_step) (simp_all add: run_finished run_rollback commit_def idle_def)

lemma run_delete:
  "delete_run fl k u r (At_delete, \<lparr>cn_store = d', cn_saved = Some d\<rparr>, dk) =
     (if fl_delete fl then (Inl DeleteFailed, idle d, dk)
      else if \<not> delete_allowed d' k then (Inl DeleteFailed, idle d, dk)
      else if fl_commit fl then (Inl DeleteFailed, idle d, dk)
      else (Inr \<lparr>dr_messageId = k, dr_deletedBy = u\<rparr>,
            idle (d'\<lparr>messages := delete_row k (messages d')\<rparr>), dk))"
  by (subst run_step) (simp_all add: run_rollback run_commit run_def)

lemma run_update_file:
  "delete_run fl k u r
     (At_update_file message fileInfo, \<lparr>cn_store = d', cn_saved = Some d\<rparr>, dk) =
     (if fl_update_file fl then (Inl DeleteFailed, idle d, dk)
      else delete_run fl k u r (At_delete,
             \<lparr>cn_store = d'\<lparr>files := release_file (the (msg_file_id message)) (files d')\<rparr>,
              cn_saved = Some d\<rparr>,
             (case fileInfo of
                None \<Rightarrow> dk
              | Some f \<Rightarrow> if f_stored_name f \<noteq> []
                          then unlink_stored (fl_unlink fl) (f_stored_name f) dk
                          else dk)))"
  by (subst run_step) (simp_all add: run_rollback run_def)

lemma run_get_file:
  "delete_run fl k u r (At_get_file message, \<lparr>cn_store = d', cn_saved = Some d\<rparr>, dk) =
     (if fl_get_file fl then (Inl DeleteFailed, idle d, dk)
      else delete_run fl k u r (At_update_file message
              (find (\<lambda>f. f_file_id f = the (msg_file_id message)) (files d')),
             \<lparr>cn_store = d', cn_saved = Some d\<rparr>, dk))"
  by (subst run_step) (simp_all add: run_rollback)

lemma run_clear:
  "delete_run fl k u r (At_clear message, \<lparr>cn_store = d, cn_saved = Some d\<rparr>, dk) =
     (case delete_transaction fl d dk message k of
        (None, dk') \<Rightarrow> (Inl DeleteFailed, idle d, dk')
      | (Some d', dk') \<Rightarrow> (Inr \<lparr>dr_messageId = k, dr_deletedBy = u\<rparr>, idle d', dk'))"
  by (subst run_step)
     (simp_all add: run_rollback run_delete run_get_file run_update_file run_def
        delete_transaction_def Let_def)

lemma run_begin:
  "delete_run fl k u r (At_begin message, idle d, dk) =
     (if fl_begin fl then (Inl RollbackFailed, idle d, dk)
      else (case delete_transaction fl d dk message k of
              (None, dk') \<Rightarrow> (Inl DeleteFailed, idle d, dk')
            | (Some d', dk') \<Rightarrow> (Inr \<lparr>dr_messageId = k, dr_deletedBy = u\<rparr>, idle d', dk')))"
proof (cases "fl_begin fl")
  case True
  have "delete_run fl k u r (At_rollback, idle d, dk) = (Inl RollbackFailed, idle d, dk)"
    by (subst run_step) (simp_all add: run_finished rollback_def idle_def)
  with True show ?thesis by (subst run_step) simp_all
next
  case False
  then show ?thesis
    by (subst run_step) (simp_all add: run_clear beginTransaction_def idle_def)
qed

lemma run_permitted:
  "delete_run fl k u r (permitted message u isAdmin, idle d, dk) =
     (if \<not> isAdmin \<and> msg_sender_uid message \<noteq> u then (Inl NoDeletePermission, idle d, dk)
      else delete_run fl k u r (At_begin message, idle d, dk))"
  by (simp add: permitted_def run_finished)

lemma run_admin:
  "delete_run fl k u r (At_admin message, cn, dk) =
     delete_run fl k u r
       (permitted message u (list_ex (is_admin_row r u) (chatroom_admins (cn_store cn))), cn, dk)"
  by (subst run_step) simp_all

lemma run_room:
  "delete_run fl k u r (At_room message, idle d, dk) =
     delete_run fl k u r (permitted message u (checkAdminPermission d u r), idle d, dk)"
proof (cases "find_room d r")
  case None
  then show ?thesis
    by (subst run_step) (simp_all add: run_admin checkAdminPermission_def idle_def)
next
  case (Some c)
  then show ?thesis
    by (subst run_step) (simp_all add: run_admin checkAdminPermission_def idle_def)
qed

text \<open>
  A call that runs alone on a connection without an open transaction: the message is looked
  up, the permission is checked, \<^verbatim>\<open>BEGIN\<close> is rejected only for an outside reason (and then
  the \<^verbatim>\<open>ROLLBACK\<close> of the \<^verbatim>\<open>catch\<close> block is rejected too, no transaction being open), and
  the \<^verbatim>\<open>ROLLBACK\<close> after any later failure restores the store.
\<close>

lemma deleteMessage_alone:
  "deleteMessage fl d dk messageId deleterUid chatroomId =
     (case find (\<lambda>m. msg_id m = messageId \<and> msg_chatroom_id m = chatroomId) (messages d) of
        None \<Rightarrow> (Inl MessageNotFound, d, dk)
      | Some message \<Rightarrow>
          if \<not> checkAdminPermission d deleterUid chatroomId \<and>
             msg_sender_uid message \<noteq> deleterUid
          then (Inl NoDeletePermission, d, dk)
          else if fl_begin fl then (Inl RollbackFailed, d, dk)
          else
            (case delete_transaction fl d dk message messageId of
               (None, dk') \<Rightarrow> (Inl DeleteFailed, d, dk')
             | (Some d', dk') \<Rightarrow>
                 (Inr \<lparr>dr_messageId = messageId, dr_deletedBy = deleterUid\<rparr>, d', dk')))"
proof (cases "find (\<lambda>m. msg_id m = messageId \<and> msg_chatroom_id m = chatroomId) (messages d)")
  case None
  have "delete_run fl messageId deleterUid chatroomId (At_select, idle d, dk) =
        (Inl MessageNotFound, idle d, dk)"
    using None by (subst run_step) (simp_all add: run_finished idle_def)
  with None show ?thesis
    by (simp add: deleteMessage_def idle_def)
next
  case (Some message)
  have "delete_run fl messageId deleterUid chatroomId (At_select, idle d, dk) =
        delete_run fl messageId deleterUid chatroomId (At_room message, idle d, dk)"
    using Some by (subst run_step) (simp_all add: idle_def)
  then show ?thesis
    using Some
    by (simp add: deleteMessage_def run_room run_permitted run_begin
             split: prod.splits option.splits)
       (simp add: idle_def)
qed

text \<open>
  For such a call the store part of the deletion is one unit: when the call fails, for
  whatever combination of rejected statements, the store is the one before the call; when it
  succeeds, the reply links to the message are cleared and its row is gone.
\<close>

lemma delete_alone_store:
  "(case deleteMessage fl d dk k u r of
      (Inl e, d', dk') \<Rightarrow> d' = d
    | (Inr res, d', dk') \<Rightarrow>
        messages d' = delete_row k (clear_replies k (messages d)) \<and>
        find (\<lambda>m. msg_id m = k) (messages d') = None)"
  by (auto simp: deleteMessage_alone delete_transaction_def Let_def delete_row_def find_None_iff
           split: option.splits prod.splits sum.splits if_splits)

text \<open>
  The removal of the stored file is not part of that unit, also for a call that runs alone.
  A failing removal is ignored and the deletion goes on, for any outcome of the other steps;
  and when the \<^verbatim>\<open>DELETE\<close> after a successful removal is rejected, the store is rolled back
  but the file is gone.
\<close>

lemma delete_unlink_failure_ignored:
  "fst (deleteMessage (fl\<lparr>fl_unlink := b\<rparr>) d dk k u r) = fst (deleteMessage fl d dk k u r) \<and>
   fst (snd (deleteMessage (fl\<lparr>fl_unlink := b\<rparr>) d dk k u r)) =
     fst (snd (deleteMessage fl d dk k u r))"
  by (auto simp: deleteMessage_alone delete_transaction_def Let_def
           split: option.splits prod.splits sum.splits if_splits)

lemma delete_alone_file_outside_unit:
  "deleteMessage (no_faults\<lparr>fl_unlink := True\<rparr>) ex_file_db {''f1.bin''} 1 ''10000002''
      ''ABCD1234'' =
     (Inr \<lparr>dr_messageId = 1, dr_deletedBy = ''10000002''\<rparr>,
      ex_file_db\<lparr>messages := [ex_reply_msg\<lparr>msg_reply_to_message_id := None\<rparr>],
                 files := [\<lparr>f_file_id = ''F1'', f_stored_name = ''f1.bin'',
                            f_message_id = None, f_is_expired = True\<rparr>]\<rparr>,
      {''f1.bin''}) \<and>
   deleteMessage (no_faults\<lparr>fl_delete := True\<rparr>) ex_file_db {''f1.bin''} 1 ''10000002''
      ''ABCD1234'' = (Inl DeleteFailed, ex_file_db, {})"
  by (simp add: deleteMessage_alone ex_defs delete_defs admin_defs)

subsection \<open>Calls that overlap\<close>

text \<open>
  Claim C2 fails on the code when two deletions overlap.  The transaction is the
  connection's: in the example the sender of message 1 and the creator of the room delete
  that message at the same time.  Both calls find the message and pass the permission check.
  The first call begins its transaction; the \<^verbatim>\<open>BEGIN\<close> of the second is rejected, and the
  \<^verbatim>\<open>ROLLBACK\<close> in its \<^verbatim>\<open>catch\<close> block ends the transaction of the first.  The remaining
  statements of the first call then take effect one by one, its \<^verbatim>\<open>COMMIT\<close> is rejected and
  so is its \<^verbatim>\<open>ROLLBACK\<close>.  Both calls have thrown, and the reply link is cleared, the file
  row released, the stored file removed and the message row deleted.
\<close>

theorem delete_overlap_not_atomic:
  "find (\<lambda>m. msg_id m = 1) (messages ex_file_db) = Some ex_file_msg \<and>
   interleave overlap_schedule
     ([new_call 1 ''10000002'' ''ABCD1234'', new_call 1 ''10000001'' ''ABCD1234''],
      idle ex_file_db, {''f1.bin''}) =
   ([(new_call 1 ''10000002'' ''ABCD1234'')\<lparr>dc_at := Finished (Inl RollbackFailed)\<rparr>,
     (new_call 1 ''10000001'' ''ABCD1234'')\<lparr>dc_at := Finished (Inl DeleteFailed)\<rparr>],
    idle (ex_file_db\<lparr>messages := [ex_reply_msg\<lparr>msg_reply_to_message_id := None\<rparr>],
                     files := [\<lparr>f_file_id = ''F1'', f_stored_name = ''f1.bin'',
                                f_message_id = None, f_is_expired = True\<rparr>]\<rparr>),
    {})"
  by (simp add: overlap_schedule_def new_call_def call_step_def idle_def ex_defs
      find_room_def is_admin_row_def permitted_def beginTransaction_def commit_def rollback_def
      run_def clear_replies_def release_file_def unlink_stored_def delete_row_def
      delete_allowed_def truthy_str_def)

text \<open>
  When the second call rolls back only after the first has cleared the reply link, that
  update is undone with the transaction.  The first call then releases the file row and
  removes the stored file outside any transaction, and its \<^verbatim>\<open>DELETE\<close> is rejected by the
  foreign key of the reply.  Both calls have thrown; the message row and the reply link are
  as before, and the file is released and gone.
\<close>

lemma delete_overlap_file_released:
  "interleave late_rollback_schedule
     ([new_call 1 ''10000002'' ''ABCD1234'', new_call 1 ''10000001'' ''ABCD1234''],
      idle ex_file_db, {''f1.bin''}) =
   ([(new_call 1 ''10000002'' ''ABCD1234'')\<lparr>dc_at := Finished (Inl RollbackFailed)\<rparr>,
     (new_call 1 ''10000001'' ''ABCD1234'')\<lparr>dc_at := Finished (Inl DeleteFailed)\<rparr>],
    idle (ex_file_db\<lparr>files := [\<lparr>f_file_id = ''F1'', f_stored_name = ''f1.bin'',
                                f_message_id = None, f_is_expired = True\<rparr>]\<rparr>),
    {})"
  by (simp add: late_rollback_schedule_def new_call_def call_step_def idle_def ex_defs
      find_room_def is_admin_row_def permitted_def beginTransaction_def commit_def rollback_def
      run_def clear_replies_def release_file_def unlink_stored_def delete_row_def
      delete_allowed_def truthy_str_def)

subsection \<open>Replies\<close>







text \<open>
  Claim C5.  When the target of \<^verbatim>\<open>deleteUserMessages\<close> is the creator of the room, the call
  fails whoever the requester is (with the creator-protection error for a requester with
  admin rights, which includes the creator, and with the permission error otherwise), and
  neither the store nor the upload directory changes.
\<close>

theorem bulk_delete_protects_creator:
  "find_room d r = Some c \<Longrightarrow> cr_creator_uid c = target \<Longrightarrow>
   snd (deleteUserMessages bf d dk target r deleter) = (d, dk) \<and>
   fst (deleteUserMessages bf d dk target r deleter) =
     (if checkAdminPermission d deleter r then Inl CreatorMessagesProtected
      else Inl NoBulkDeletePermission)"
  by (simp add: deleteUserMessages_def Let_def)

theorem bulk_delete_protects_creator_witness:
  "find_room ex_file_db ''ABCD1234'' = Some ex_room \<and> cr_creator_uid ex_room = ''10000001'' \<and>
   checkAdminPermission ex_file_db ''10000001'' ''ABCD1234'' \<and>
   deleteUserMessages no_bulk_faults ex_file_db {''f1.bin''} ''10000001'' ''ABCD1234'' ''10000001''
     = (Inl CreatorMessagesProtected, ex_file_db, {''f1.bin''})"
  using bulk_delete_protects_creator [where d = ex_file_db and r = "''ABCD1234''" and c = ex_room
      and target = "''10000001''" and bf = no_bulk_faults and dk = "{''f1.bin''}"
      and deleter = "''10000001''"]
  by (simp add: ex_defs admin_defs prod_eq_iff)

section \<open>Kicking\<close>

text \<open>
  What a successful kick establishes: the kicker is the creator of the active room, the target
  is someone else and was an active member; afterwards the target's member row is \<^verbatim>\<open>left\<close>
  and inactive, the target has no admin rights and no mute record in the room.  A target
  without an anonymous row in the room is then reported not muted.
\<close>

lemma kick_success_shape:
  assumes "kickUser d roomId targetUid kickerUid = (Inr res, d')"
  shows "find_active_room d roomId \<noteq> None"
    and "cr_creator_uid (the (find_active_room d roomId)) = kickerUid"
    and "targetUid \<noteq> kickerUid"
    and "find (\<lambda>m. is_member_of roomId targetUid m \<and> cm_is_active m) (chatroom_members d) \<noteq> None"
    and "chatroom_members d' =
           map (\<lambda>m. if is_member_of roomId targetUid m
                     then m\<lparr>cm_is_active := False, cm_status := LeftRoom\<rparr> else m)
               (chatroom_members d)"
    and "chatroom_admins d' = filter (\<lambda>a. \<not> is_admin_row roomId targetUid a) (chatroom_admins d)"
    and "user_mutes d' = filter (\<lambda>r. \<not> is_mute_of roomId targetUid r) (user_mutes d)"
    and "chatrooms d' = chatrooms d" and "anonymous_users d' = anonymous_users d"
proof -
  have "find_active_room d roomId \<noteq> None \<and>
     cr_creator_uid (the (find_active_room d roomId)) = kickerUid \<and> targetUid \<noteq> kickerUid \<and>
     find (\<lambda>m. is_member_of roomId targetUid m \<and> cm_is_active m) (chatroom_members d) \<noteq> None \<and>
     d' = d\<lparr>chatroom_members :=
                 map (\<lambda>m. if is_member_of roomId targetUid m
                           then m\<lparr>cm_is_active := False, cm_status := LeftRoom\<rparr> else m)
                     (chatroom_members d),
               chatroom_admins :=
                 filter (\<lambda>a. \<not> is_admin_row roomId targetUid a) (chatroom_admins d),
               user_mutes := filter (\<lambda>r. \<not> is_mute_of roomId targetUid r) (user_mutes d)\<rparr>"
  proof (cases "find_active_room d roomId")
    case None
    with assms show ?thesis by (simp add: kickUser_def)
  next
    case (Some c)
    note c = this
    show ?thesis
    proof (cases "find (\<lambda>m. is_member_of roomId targetUid m \<and> cm_is_active m) (chatroom_members d)")
      case None
      with assms c show ?thesis by (simp add: kickUser_def split: if_splits)
    next
      case (Some m)
      with assms c show ?thesis by (simp add: kickUser_def split: if_splits)
    qed
  qed
  then show "find_active_room d roomId \<noteq> None"
    and "cr_creator_uid (the (find_active_room d roomId)) = kickerUid"
    and "targetUid \<noteq> kickerUid"
    and "find (\<lambda>m. is_member_of roomId targetUid m \<and> cm_is_active m) (chatroom_members d) \<noteq> None"
    and "chatroom_members d' =
           map (\<lambda>m. if is_member_of roomId targetUid m
                     then m\<lparr>cm_is_active := False, cm_status := LeftRoom\<rparr> else m)
               (chatroom_members d)"
    and "chatroom_admins d' = filter (\<lambda>a. \<not> is_admin_row roomId targetUid a) (chatroom_admins d)"
    and "user_mutes d' = filter (\<lambda>r. \<not> is_mute_of roomId targetUid r) (user_mutes d)"
    and "chatrooms d' = chatrooms d" and "anonymous_users d' = anonymous_users d"
    by simp_all
qed

lemma find_room_unique:
  assumes "distinct (map cr_room_id cs)"
    and "find (\<lambda>c. cr_room_id c = r \<and> cr_is_active c) cs = Some c"
  shows "find (\<lambda>c. cr_room_id c = r) cs = Some c"
  using assms
proof (induction cs)
  case Nil
  then show ?case by simp
next
  case (Cons a cs)
  show ?case
  proof (cases "cr_room_id a = r")
    case False
    with Cons show ?thesis by simp
  next
    case True
    show ?thesis
    proof (cases "cr_is_active a")
      case True
      with \<open>cr_room_id a = r\<close> Cons.prems(2) show ?thesis by simp
    next
      case False
      with Cons.prems(2) have "find (\<lambda>c. cr_room_id c = r \<and> cr_is_active c) cs = Some c"
        by simp
      from find_SomeD [OF this] have "r \<in> cr_room_id ` set cs" by auto
      with Cons.prems(1) \<open>cr_room_id a = r\<close> show ?thesis by simp
    qed
  qed
qed

lemma kicked_rows_left:
  "list_all (\<lambda>m. cm_status m = LeftRoom \<and> \<not> cm_is_active m)
     (filter (is_member_of roomId targetUid)
        (map (\<lambda>m. if is_member_of roomId targetUid m
                  then m\<lparr>cm_is_active := False, cm_status := LeftRoom\<rparr> else m) ms))"
  by (induction ms) (auto simp: is_member_of_def)

lemma kick_success_effects:
  assumes "kickUser d roomId targetUid kickerUid = (Inr res, d')"
    and "distinct (map cr_room_id (chatrooms d))"
  shows "\<exists>c. find_active_room d roomId = Some c \<and> cr_creator_uid c = kickerUid"
    and "targetUid \<noteq> kickerUid"
    and "list_ex (\<lambda>m. is_member_of roomId targetUid m \<and> cm_is_active m) (chatroom_members d)"
    and "list_all (\<lambda>m. cm_status m = LeftRoom \<and> \<not> cm_is_active m)
           (filter (is_member_of roomId targetUid) (chatroom_members d'))"
    and "\<not> checkAdminPermission d' targetUid roomId"
    and "filter (is_mute_of roomId targetUid) (user_mutes d') = []"
proof -
  note s = kick_success_shape [OF assms(1)]
  from s(1) obtain c where c: "find_active_room d roomId = Some c" by auto
  with s(2) have cc: "cr_creator_uid c = kickerUid" by simp
  show "\<exists>c. find_active_room d roomId = Some c \<and> cr_creator_uid c = kickerUid"
    using c cc by simp
  show "targetUid \<noteq> kickerUid" by (rule s(3))
  from s(4) obtain m where
    m: "find (\<lambda>m. is_member_of roomId targetUid m \<and> cm_is_active m) (chatroom_members d) = Some m"
    by auto
  show "list_ex (\<lambda>m. is_member_of roomId targetUid m \<and> cm_is_active m) (chatroom_members d)"
    using find_SomeD [OF m] by (auto simp: list_ex_iff)
  show "list_all (\<lambda>m. cm_status m = LeftRoom \<and> \<not> cm_is_active m)
           (filter (is_member_of roomId targetUid) (chatroom_members d'))"
    unfolding s(5) by (rule kicked_rows_left)
  have "find_room d roomId = Some c"
    using find_room_unique [OF assms(2)] c by (simp add: find_active_room_def find_room_def)
  then show "\<not> checkAdminPermission d' targetUid roomId"
    using cc s(3) by (simp add: s(6) s(8) checkAdminPermission_def find_room_def list_ex_iff)
  show "filter (is_mute_of roomId targetUid) (user_mutes d') = []"
    by (simp add: s(7) filter_empty_conv)
qed

lemma kick_then_not_muted_without_anonymous_row:
  assumes "kickUser d roomId targetUid kickerUid = (Inr res, d')"
    and "\<not> list_ex (is_anon_of roomId targetUid) (anonymous_users d)"
  shows "\<not> isMuted (checkUserMuted d' now targetUid roomId)"
proof -
  note s = kick_success_shape [OF assms(1)]
  have "filter (\<lambda>r. is_mute_of roomId targetUid r \<and> mu_is_active r) (user_mutes d') = []"
    by (simp add: s(7) filter_empty_conv)
  moreover have "find (\<lambda>a. is_anon_of roomId targetUid a \<and> au_is_active a) (anonymous_users d') = None"
    using assms(2) by (auto simp: s(9) find_None_iff list_ex_iff)
  ultimately show ?thesis
    by (simp add: checkUserMuted_def)
qed

lemma kick_db_muted_eq:
  "kick_db_muted =
     kick_db\<lparr>user_mutes := user_mutes kick_db @
        [\<lparr>mu_chatroom_id = ''ABCD1234'', mu_user_uid = ''ANON000000000001'',
          mu_muted_by = ''10000001'', mu_reason = ''spam'', mu_mute_until = 3601000,
          mu_is_active = True, mu_created_at = 1000\<rparr>],
       anonymous_users := [ex_anon\<lparr>au_mute_until := Some 3601000\<rparr>]\<rparr>"
  by (simp add: kick_db_muted_def muteUser_def kick_db_def ex_defs admin_defs is_anon_of_def sql_now_def Let_def)

text \<open>
  Claim C4 fails on the code for anonymous targets.  In the example the creator has muted the
  anonymous member for an hour (\<open>kick_db_muted\<close>) and then kicks that member.  The kick
  succeeds and no mute record of the target is left, but \<^verbatim>\<open>checkUserMuted\<close> still reports
  the target muted, from the \<^verbatim>\<open>mute_until\<close> of the anonymous row, which \<^verbatim>\<open>kickUser\<close>
  does not touch.
\<close>

theorem kick_leaves_anonymous_muted:
  "fst (kickUser kick_db_muted ''ABCD1234'' ''ANON000000000001'' ''10000001'') =
      Inr \<lparr>kr_roomId = ''ABCD1234'', kr_targetUid = ''ANON000000000001'', kr_kickedBy = ''10000001''\<rparr> \<and>
   filter (is_mute_of ''ABCD1234'' ''ANON000000000001'')
      (user_mutes (snd (kickUser kick_db_muted ''ABCD1234'' ''ANON000000000001'' ''10000001''))) = [] \<and>
   checkUserMuted (snd (kickUser kick_db_muted ''ABCD1234'' ''ANON000000000001'' ''10000001''))
      2000 ''ANON000000000001'' ''ABCD1234'' =
      \<lparr>isMuted = True, muteUntil = Some 3601000, remaining = 3599000\<rparr>"
  by (simp add: kick_db_muted_eq kick_defs kick_db_def ex_defs mute_defs)

section \<open>Anonymous principals start muted\<close>






section \<open>Joining a room with a password\<close>

text \<open>
  \<^verbatim>\<open>joinChatroom\<close>, the service of the HTTP route, follows the rules of the claim: a missing
  or closed room is an error, a room with a password asks everyone but its creator for a
  matching password, and the creator gets in without one.
\<close>

lemma joinChatroom_missing:
  "find_active_room d roomId = None \<Longrightarrow> joinChatroom v d roomId password userUid = Inl RoomNotFound"
  by (simp add: joinChatroom_def)

lemma joinChatroom_password:
  assumes "find_active_room d roomId = Some c" and "truthy_str (cr_password_hash c)"
    and "userUid \<noteq> Some (cr_creator_uid c)"
  shows "joinChatroom v d roomId password userUid =
           (if \<not> truthy_str password then Inl PasswordRequired
            else if \<not> v (the password) (the (cr_password_hash c)) then Inl InvalidPassword
            else Inr \<lparr>ri_roomId = cr_room_id c, ri_name = cr_name c,
                      ri_creatorUid = cr_creator_uid c, ri_createdAt = cr_created_at c,
                      ri_isOwner = Some False, ri_userCount = None\<rparr>)"
  using assms by (cases userUid) (auto simp: joinChatroom_def Let_def truthy_str_def)

lemma joinChatroom_creator:
  assumes "find_active_room d roomId = Some c" and "cr_creator_uid c \<noteq> []"
  shows "joinChatroom v d roomId password (Some (cr_creator_uid c)) =
           Inr \<lparr>ri_roomId = cr_room_id c, ri_name = cr_name c,
                ri_creatorUid = cr_creator_uid c, ri_createdAt = cr_created_at c,
                ri_isOwner = Some True, ri_userCount = None\<rparr>"
  using assms by (simp add: joinChatroom_def Let_def truthy_str_def)

text \<open>
  Claim C3 fails on the code: the rules do not hold on every join path.  The \<^verbatim>\<open>join-room\<close>
  socket handler is the path that makes a principal a member and puts it into the presence
  registry, and it checks only that the room exists and is active.  In the example room
  \<open>5EC2E701\<close> has a password and user \<open>10000002\<close> is not its creator: \<^verbatim>\<open>joinChatroom\<close>
  without a password answers \<open>PasswordRequired\<close>, while the socket handler lets the user in
  (the room is joined, the member row is written, the uid is in the room's Set).
\<close>

theorem socket_join_skips_password:
  "joinChatroom (\<lambda>p h. False) pw_db ''5EC2E701'' None (Some ''10000002'') = Inl PasswordRequired \<and>
   snd (on_join_room 1000 7 ''5EC2E701'' pw_server) =
     [(ToRoomExcept ''5EC2E701'' 7, UserJoined guest
         [\<lparr>oe_uid = ''10000002'', oe_nickname = ''guest'', oe_avatarUrl = None,
           oe_type = ''user'', oe_isAdmin = False, oe_isCreator = False, oe_isMuted = False,
           oe_muteUntil = None\<rparr>]),
      (ToSocket 7, RoomJoined ''5EC2E701''
         \<lparr>ri_roomId = ''5EC2E701'', ri_name = ''private'', ri_creatorUid = ''10000001'',
          ri_createdAt = 0, ri_isOwner = None, ri_userCount = Some 0\<rparr>
         [\<lparr>oe_uid = ''10000002'', oe_nickname = ''guest'', oe_avatarUrl = None,
           oe_type = ''user'', oe_isAdmin = False, oe_isCreator = False, oe_isMuted = False,
           oe_muteUntil = None\<rparr>])] \<and>
   onlineUsers (fst (on_join_room 1000 7 ''5EC2E701'' pw_server)) ''5EC2E701'' = Some [''10000002''] \<and>
   chatroom_members (store (fst (on_join_room 1000 7 ''5EC2E701'' pw_server))) =
     [\<lparr>cm_chatroom_id = ''5EC2E701'', cm_user_uid = ''10000002'', cm_user_type = ''user'',
       cm_nickname = ''guest'', cm_avatar_url = None, cm_status = Online, cm_is_active = True\<rparr>]"
  by (simp add: joinChatroom_def pw_db_def pw_room_def pw_server_def guest_def ex_defs presence_defs
      truthy_str_def Let_def admin_defs mute_defs)

section \<open>Presence\<close>

lemma online_entries_uids:
  assumes "getChatroomInfo (store st) R = Inr info"
  shows "\<exists>l. online_entries st now R xs = Inr l \<and>
             map oe_uid l = map (\<lambda>u. p_uid (sk_user (the (socket_of st u))))
                               (filter (\<lambda>u. socket_of st u \<noteq> None) xs)"
proof (induction xs)
  case Nil
  show ?case by simp
next
  case (Cons u xs)
  then obtain l where l: "online_entries st now R xs = Inr l"
    "map oe_uid l = map (\<lambda>u. p_uid (sk_user (the (socket_of st u))))
                        (filter (\<lambda>u. socket_of st u \<noteq> None) xs)"
    by blast
  show ?case
  proof (cases "socket_of st u")
    case None
    with l show ?thesis by simp
  next
    case (Some sk)
    with l assms show ?thesis by (simp add: Let_def)
  qed
qed

lemma own_uids:
  "list_all (stored_under_own_uid st) xs \<Longrightarrow>
   map (\<lambda>u. p_uid (sk_user (the (socket_of st u)))) (filter (\<lambda>u. socket_of st u \<noteq> None) xs)
     = filter (\<lambda>u. socket_of st u \<noteq> None) xs"
  by (induction xs) (auto simp: stored_under_own_uid_def)

lemma count_distinct:
  "distinct xs \<Longrightarrow>
   length (filter (\<lambda>u. u = uid) (filter P xs)) = (if uid \<in> set xs \<and> P uid then 1 else 0)"
  by (induction xs) auto

lemma count_entries:
  "length (filter (\<lambda>e. oe_uid e = uid) l) = length (filter (\<lambda>u. u = uid) (map oe_uid l))"
  by (induction l) auto

lemma online_count_eq:
  assumes "find_active_room (store st) R \<noteq> None" and "registry_ok st R"
  shows "online_count st now R uid =
           Some (if uid \<in> set (room_set st R) \<and> socket_of st uid \<noteq> None then 1 else 0)"
proof -
  from assms(1) obtain info where info: "getChatroomInfo (store st) R = Inr info"
    by (auto simp: getChatroomInfo_def)
  from online_entries_uids [OF info, of now "room_set st R"] obtain l where
    l: "online_entries st now R (room_set st R) = Inr l"
       "map oe_uid l = map (\<lambda>u. p_uid (sk_user (the (socket_of st u))))
                           (filter (\<lambda>u. socket_of st u \<noteq> None) (room_set st R))"
    by blast
  have g: "getOnlineUserList st now R = Inr l"
    using l(1) by (cases "onlineUsers st R") (simp_all add: getOnlineUserList_def room_set_def)
  have "map oe_uid l = filter (\<lambda>u. socket_of st u \<noteq> None) (room_set st R)"
    using l(2) own_uids assms(2) by (simp add: registry_ok_def)
  then have "length (filter (\<lambda>e. oe_uid e = uid) l) =
      (if uid \<in> set (room_set st R) \<and> socket_of st uid \<noteq> None then 1 else 0)"
    using count_distinct [of "room_set st R" uid "\<lambda>u. socket_of st u \<noteq> None"] assms(2)
    by (simp add: count_entries registry_ok_def)
  then show ?thesis by (simp add: online_count_def g)
qed

lemma room_active_info:
  "find_active_room d R \<noteq> None \<Longrightarrow> \<exists>info. getChatroomInfo d R = Inr info"
  by (auto simp: getChatroomInfo_def)

lemma join_state_fields:
  "userSockets (join_state sk sid R st) = userSockets st"
  "chatrooms (store (join_state sk sid R st)) = chatrooms (store st)"
  "room_set (join_state sk sid R st) R = set_add (p_uid (sk_user sk)) (room_set st R)"
  "sockets (join_state sk sid R st) sid =
     Some (sk\<lparr>sk_rooms := set_add R (sk_rooms sk), sk_currentRoom := Some R\<rparr>)"
  by (simp_all add: join_state_def addMemberToChatroom_def room_set_def)

lemma leave_state_fields:
  "userSockets (leave_state sk R st) = userSockets st"
  "sockets (leave_state sk R st) = sockets st"
  "store (leave_state sk R st) = store st"
  "room_set (leave_state sk R st) R = set_delete (p_uid (sk_user sk)) (room_set st R)"
  by (simp_all add: leave_state_def room_set_def set_delete_def split: option.splits)

text \<open>
  A leave whose continuation runs at once, written in one piece; \<open>offline\<close> is the state
  in which the continuation starts.
\<close>

lemma handleUserLeaveRoom_alone:
  "handleUserLeaveRoom now sid st =
     (case sockets st sid of
        None \<Rightarrow> (st, [])
      | Some sk \<Rightarrow>
          if \<not> truthy_str (sk_currentRoom sk) then (st, [])
          else leave_resume now sid (the (sk_currentRoom sk))
                 (st\<lparr>store := setMemberOffline (store st) (the (sk_currentRoom sk))
                                  (p_uid (sk_user sk))\<rparr>))"
  by (simp add: handleUserLeaveRoom_def leave_start_def truthy_str_def split: option.splits)

lemma after_join_eq:
  assumes "sockets st sid = Some sk" and "find_active_room (store st) R \<noteq> None"
  shows "after_join now sid R st = join_state sk sid R st"
proof -
  from room_active_info [OF assms(2)] obtain info where "getChatroomInfo (store st) R = Inr info" ..
  then show ?thesis
    using assms(1)
    by (cases "getOnlineUserList (join_state sk sid R st) now R")
       (simp_all add: after_join_def on_join_room_def Let_def)
qed

lemma find_active_room_cong:
  "chatrooms d' = chatrooms d \<Longrightarrow> find_active_room d' R = find_active_room d R"
  by (simp add: find_active_room_def)

lemma getOnlineUserList_ok:
  assumes "find_active_room (store st) R \<noteq> None"
  shows "\<exists>l. getOnlineUserList st now R = Inr l"
proof -
  from room_active_info [OF assms] obtain info where "getChatroomInfo (store st) R = Inr info" ..
  from online_entries_uids [OF this, of now] show ?thesis
    by (cases "onlineUsers st R") (auto simp: getOnlineUserList_def)
qed

lemma stored_alt:
  "stored_under_own_uid st u =
     (case map_option sk_user (socket_of st u) of None \<Rightarrow> True | Some usr \<Rightarrow> p_uid usr = u)"
  by (cases "socket_of st u") (simp_all add: stored_under_own_uid_def)

lemma socket_user_update:
  assumes "sockets st sid = Some sk" and "sk_user sk' = sk_user sk"
    and "userSockets st' = userSockets st" and "sockets st' = (sockets st)(sid \<mapsto> sk')"
  shows "map_option sk_user (socket_of st' u) = map_option sk_user (socket_of st u)"
  using assms by (cases "userSockets st u") (auto simp: socket_of_def)

lemma registry_ok_cong:
  assumes "room_set st' R = room_set st R"
    and "\<And>u. map_option sk_user (socket_of st' u) = map_option sk_user (socket_of st u)"
  shows "registry_ok st' R = registry_ok st R"
  using assms by (simp add: registry_ok_def stored_alt list_all_iff)

lemma set_add_props:
  "distinct xs \<Longrightarrow> distinct (set_add x xs)" "set (set_add x xs) = insert x (set xs)"
  by (auto simp: set_add_def)

lemma set_delete_props:
  "distinct xs \<Longrightarrow> distinct (set_delete x xs)" "set (set_delete x xs) = set xs - {x}"
  by (auto simp: set_delete_def)

text \<open>
  One join, from a state that satisfies the hypotheses, into one that satisfies them again;
  then one leave and a second one.
\<close>

lemma join_step:
  assumes sk: "sockets st sid = Some sk" and uid: "p_uid (sk_user sk) = uid"
    and room: "find_active_room (store st) R \<noteq> None"
    and reg: "socket_of st uid \<noteq> None" "stored_under_own_uid st uid"
    and ok: "registry_ok st R"
  defines "sk1 \<equiv> sk\<lparr>sk_rooms := set_add R (sk_rooms sk), sk_currentRoom := Some R\<rparr>"
  shows "sockets (after_join now sid R st) sid = Some sk1"
    and "find_active_room (store (after_join now sid R st)) R \<noteq> None"
    and "socket_of (after_join now sid R st) uid \<noteq> None"
    and "stored_under_own_uid (after_join now sid R st) uid"
    and "registry_ok (after_join now sid R st) R"
    and "room_set (after_join now sid R st) R = set_add uid (room_set st R)"
    and "online_count (after_join now sid R st) t R uid = Some 1"
proof -
  let ?st1 = "join_state sk sid R st"
  have eq: "after_join now sid R st = ?st1" by (rule after_join_eq [OF sk room])
  have usr: "map_option sk_user (socket_of ?st1 u) = map_option sk_user (socket_of st u)" for u
    by (rule socket_user_update [OF sk, where sk' = sk1])
       (simp_all add: sk1_def join_state_def)
  show s1: "sockets (after_join now sid R st) sid = Some sk1"
    by (simp add: eq join_state_fields sk1_def)
  show r1: "find_active_room (store (after_join now sid R st)) R \<noteq> None"
    using room by (simp add: eq find_active_room_cong [OF join_state_fields(2)])
  show so1: "socket_of (after_join now sid R st) uid \<noteq> None"
    using usr [of uid] reg(1) by (auto simp: eq)
  show st1: "stored_under_own_uid (after_join now sid R st) uid"
    using reg(2) by (simp add: eq stored_alt usr)
  show rs1: "room_set (after_join now sid R st) R = set_add uid (room_set st R)"
    by (simp add: eq join_state_fields uid)
  have "list_all (stored_under_own_uid ?st1) (set_add uid (room_set st R))"
    using ok reg(2) by (simp add: registry_ok_def list_all_iff set_add_props stored_alt usr)
  then show ok1: "registry_ok (after_join now sid R st) R"
    using ok rs1 by (simp add: registry_ok_def eq set_add_props)
  show "online_count (after_join now sid R st) t R uid = Some 1"
    using online_count_eq [OF r1 ok1, of t uid] so1 by (simp add: rs1 set_add_props)
qed

lemma leave_step:
  assumes sk: "sockets st sid = Some sk" and uid: "p_uid (sk_user sk) = uid"
    and cur: "sk_currentRoom sk = Some R" and ne: "R \<noteq> []"
    and room: "find_active_room (store st) R \<noteq> None"
    and ok: "registry_ok st R"
  shows "room_set (after_leave now sid st) R = set_delete uid (room_set st R)"
    and "online_count (after_leave now sid st) t R uid = Some 0"
    and "\<exists>l. snd (handleUserLeaveRoom now sid st) =
               [(ToRoomExcept R sid, UserLeft uid (p_nickname (sk_user sk)) l)]"
    and "handleUserLeaveRoom now' sid (after_leave now sid st) = (after_leave now sid st, [])"
proof -
  let ?st0 = "st\<lparr>store := setMemberOffline (store st) R uid\<rparr>"
  let ?st1 = "leave_state sk R ?st0"
  let ?sk2 = "sk\<lparr>sk_rooms := set_delete R (sk_rooms sk), sk_currentRoom := None\<rparr>"
  let ?st2 = "?st1\<lparr>sockets := (sockets ?st1)(sid \<mapsto> ?sk2)\<rparr>"
  have r0: "find_active_room (store ?st0) R \<noteq> None"
    using room by (simp add: find_active_room_def setMemberOffline_def)
  have r1: "find_active_room (store ?st1) R \<noteq> None"
    using r0 by (simp add: leave_state_fields)
  from getOnlineUserList_ok [OF r1, of now] obtain l where
    l: "getOnlineUserList ?st1 now R = Inr l" ..
  have run: "handleUserLeaveRoom now sid st =
      (?st2, [(ToRoomExcept R sid, UserLeft uid (p_nickname (sk_user sk)) l)])"
    using sk cur ne l uid
    by (simp add: handleUserLeaveRoom_alone leave_resume_def Let_def truthy_str_def)
  have eq: "after_leave now sid st = ?st2" by (simp add: after_leave_def run)
  show "\<exists>l. snd (handleUserLeaveRoom now sid st) =
               [(ToRoomExcept R sid, UserLeft uid (p_nickname (sk_user sk)) l)]"
    by (simp add: run)
  have rs0: "room_set ?st0 R = room_set st R" by (simp add: room_set_def)
  show rs: "room_set (after_leave now sid st) R = set_delete uid (room_set st R)"
    using leave_state_fields(4) [of sk R ?st0] rs0 by (simp add: eq room_set_def uid)
  have usr: "map_option sk_user (socket_of ?st2 u) = map_option sk_user (socket_of st u)" for u
    by (rule socket_user_update [OF sk, where sk' = ?sk2])
       (simp_all add: leave_state_fields)
  have "list_all (stored_under_own_uid ?st2) (set_delete uid (room_set st R))"
    using ok by (simp add: registry_ok_def list_all_iff set_delete_props stored_alt usr)
  then have ok2: "registry_ok (after_leave now sid st) R"
    using ok rs by (simp add: registry_ok_def eq set_delete_props)
  have r2: "find_active_room (store (after_leave now sid st)) R \<noteq> None"
    using r1 by (simp add: eq find_active_room_def)
  show "online_count (after_leave now sid st) t R uid = Some 0"
    using online_count_eq [OF r2 ok2, of t uid] by (simp add: rs set_delete_props)
  show "handleUserLeaveRoom now' sid (after_leave now sid st) = (after_leave now sid st, [])"
    by (simp add: eq handleUserLeaveRoom_alone truthy_str_def)
qed

lemma registry_invI:
  assumes "\<And>R. distinct (room_set st R)"
    and "\<And>u s. userSockets st u = Some s \<Longrightarrow> \<exists>sk. sockets st s = Some sk \<and> p_uid (sk_user sk) = u"
  shows "registry_inv st"
  using assms by (simp add: registry_inv_def)

lemma inv_distinct: "registry_inv st \<Longrightarrow> distinct (room_set st R)"
  by (simp add: registry_inv_def)

lemma inv_socketD:
  "registry_inv st \<Longrightarrow> userSockets st u = Some s \<Longrightarrow>
   \<exists>sk. sockets st s = Some sk \<and> p_uid (sk_user sk) = u"
  by (simp add: registry_inv_def)

lemma registry_inv_ok:
  assumes "registry_inv st"
  shows "registry_ok st R" and "stored_under_own_uid st u"
    and "userSockets st u \<noteq> None \<Longrightarrow> socket_of st u \<noteq> None"
proof -
  show own: "stored_under_own_uid st u" for u
  proof (cases "userSockets st u")
    case None
    then show ?thesis by (simp add: stored_under_own_uid_def socket_of_def)
  next
    case (Some s)
    from inv_socketD [OF assms this] show ?thesis
      using Some by (auto simp: stored_under_own_uid_def socket_of_def)
  qed
  show "registry_ok st R"
    using inv_distinct [OF assms] own by (simp add: registry_ok_def list_all_iff)
  show "socket_of st u \<noteq> None" if "userSockets st u \<noteq> None"
  proof -
    from that obtain s where s: "userSockets st u = Some s" by auto
    from inv_socketD [OF assms s] show ?thesis by (auto simp: socket_of_def s)
  qed
qed

lemma room_set_join_state:
  "room_set (join_state sk sid R st) R' =
     (if R' = R then set_add (p_uid (sk_user sk)) (room_set st R) else room_set st R')"
  by (simp add: join_state_def room_set_def)

lemma room_set_leave_state:
  "room_set (leave_state sk R st) R' =
     (if R' = R then set_delete (p_uid (sk_user sk)) (room_set st R) else room_set st R')"
  by (simp add: leave_state_def room_set_def set_delete_def split: option.splits)

lemma inv_sockets_update:
  assumes "registry_inv st" and "sockets st sid = Some sk" and "sk_user sk' = sk_user sk"
  shows "registry_inv (st\<lparr>sockets := (sockets st)(sid \<mapsto> sk')\<rparr>)"
proof (rule registry_invI)
  fix R show "distinct (room_set (st\<lparr>sockets := (sockets st)(sid \<mapsto> sk')\<rparr>) R)"
    using inv_distinct [OF assms(1), of R] by (simp add: room_set_def)
next
  fix u s assume "userSockets (st\<lparr>sockets := (sockets st)(sid \<mapsto> sk')\<rparr>) u = Some s"
  then have "userSockets st u = Some s" by simp
  from inv_socketD [OF assms(1) this] obtain k where "sockets st s = Some k" "p_uid (sk_user k) = u"
    by blast
  then show "\<exists>k. sockets (st\<lparr>sockets := (sockets st)(sid \<mapsto> sk')\<rparr>) s = Some k \<and> p_uid (sk_user k) = u"
    using assms(2,3) by (cases "s = sid") auto
qed

lemma inv_join_state:
  assumes "registry_inv st" and "sockets st sid = Some sk"
  shows "registry_inv (join_state sk sid R st)"
proof (rule registry_invI)
  fix R' show "distinct (room_set (join_state sk sid R st) R')"
    using inv_distinct [OF assms(1)] by (simp add: room_set_join_state set_add_props)
next
  fix u s assume "userSockets (join_state sk sid R st) u = Some s"
  then have "userSockets st u = Some s" by (simp add: join_state_fields)
  from inv_socketD [OF assms(1) this] obtain k where "sockets st s = Some k" "p_uid (sk_user k) = u"
    by blast
  then show "\<exists>k. sockets (join_state sk sid R st) s = Some k \<and> p_uid (sk_user k) = u"
    using assms(2) by (cases "s = sid") (auto simp: join_state_def)
qed

lemma inv_leave_state:
  assumes "registry_inv st"
  shows "registry_inv (leave_state sk R st)"
proof (rule registry_invI)
  fix R' show "distinct (room_set (leave_state sk R st) R')"
    using inv_distinct [OF assms] by (simp add: room_set_leave_state set_delete_props)
next
  fix u s assume "userSockets (leave_state sk R st) u = Some s"
  then have "userSockets st u = Some s" by (simp add: leave_state_fields)
  from inv_socketD [OF assms this]
  show "\<exists>k. sockets (leave_state sk R st) s = Some k \<and> p_uid (sk_user k) = u"
    by (simp add: leave_state_fields)
qed

lemma inv_after_join:
  assumes "registry_inv st"
  shows "registry_inv (after_join now sid R st)"
proof (cases "sockets st sid")
  case None
  then show ?thesis using assms by (simp add: after_join_def on_join_room_def)
next
  case (Some sk)
  show ?thesis
  proof (cases "getChatroomInfo (store st) R")
    case (Inl e)
    then show ?thesis using assms Some by (simp add: after_join_def on_join_room_def)
  next
    case (Inr info)
    then have "after_join now sid R st = join_state sk sid R st"
      using Some
      by (cases "getOnlineUserList (join_state sk sid R st) now R")
         (simp_all add: after_join_def on_join_room_def Let_def)
    then show ?thesis using inv_join_state [OF assms Some] by simp
  qed
qed

lemma inv_store:
  assumes "registry_inv st"
  shows "registry_inv (st\<lparr>store := d\<rparr>)"
proof (rule registry_invI)
  fix R show "distinct (room_set (st\<lparr>store := d\<rparr>) R)"
    using inv_distinct [OF assms, of R] by (simp add: room_set_def)
next
  fix u s assume "userSockets (st\<lparr>store := d\<rparr>) u = Some s"
  then have "userSockets st u = Some s" by simp
  from inv_socketD [OF assms this]
  show "\<exists>k. sockets (st\<lparr>store := d\<rparr>) s = Some k \<and> p_uid (sk_user k) = u" by simp
qed

lemma inv_leave_start:
  assumes "registry_inv st"
  shows "registry_inv (snd (leave_start sid st))"
proof (cases "sockets st sid")
  case None
  then show ?thesis using assms by (simp add: leave_start_def)
next
  case (Some sk)
  then show ?thesis
    using assms inv_store [OF assms] by (simp add: leave_start_def)
qed

lemma inv_leave_resume:
  assumes "registry_inv st"
  shows "registry_inv (fst (leave_resume now sid R st))"
proof (cases "sockets st sid")
  case None
  then show ?thesis using assms by (simp add: leave_resume_def)
next
  case (Some sk)
  note sk = this
  let ?st1 = "leave_state sk R st"
  have i1: "registry_inv ?st1" by (rule inv_leave_state [OF assms])
  show ?thesis
  proof (cases "getOnlineUserList ?st1 now R")
    case (Inl e)
    then show ?thesis
      using i1 sk by (simp add: leave_resume_def Let_def)
  next
    case (Inr l)
    have s1: "sockets ?st1 sid = Some sk"
      using sk by (simp add: leave_state_fields)
    have "registry_inv (?st1\<lparr>sockets := (sockets ?st1)(sid \<mapsto>
             sk\<lparr>sk_rooms := set_delete R (sk_rooms sk), sk_currentRoom := None\<rparr>)\<rparr>)"
      by (rule inv_sockets_update [OF i1 s1]) simp
    then show ?thesis
      using Inr sk by (simp add: leave_resume_def Let_def)
  qed
qed

lemma inv_forget_uid:
  assumes "registry_inv st"
  shows "registry_inv (st\<lparr>userSockets := (userSockets st)(u := None)\<rparr>)"
proof (rule registry_invI)
  fix R show "distinct (room_set (st\<lparr>userSockets := (userSockets st)(u := None)\<rparr>) R)"
    using inv_distinct [OF assms, of R] by (simp add: room_set_def)
next
  fix v s assume "userSockets (st\<lparr>userSockets := (userSockets st)(u := None)\<rparr>) v = Some s"
  then have "userSockets st v = Some s" by (simp split: if_splits)
  from inv_socketD [OF assms this]
  show "\<exists>k. sockets (st\<lparr>userSockets := (userSockets st)(u := None)\<rparr>) s = Some k \<and>
            p_uid (sk_user k) = v"
    by simp
qed

lemma inv_disconnect_start:
  assumes "registry_inv st"
  shows "registry_inv (snd (disconnect_start sid st))"
proof (cases "sockets st sid")
  case None
  then show ?thesis using assms by (simp add: disconnect_start_def)
next
  case (Some sk)
  obtain pending st' where ls: "leave_start sid st = (pending, st')"
    by (cases "leave_start sid st")
  with inv_leave_start [OF assms, of sid] have "registry_inv st'" by simp
  from inv_forget_uid [OF this] show ?thesis
    using Some ls by (simp add: disconnect_start_def)
qed

lemma inv_connection:
  assumes "registry_inv st" and "sockets st sid = None"
  shows "registry_inv (on_connection sid user st)"
proof (rule registry_invI)
  fix R show "distinct (room_set (on_connection sid user st) R)"
    using inv_distinct [OF assms(1), of R] by (simp add: room_set_def on_connection_def)
next
  fix u s assume us: "userSockets (on_connection sid user st) u = Some s"
  show "\<exists>k. sockets (on_connection sid user st) s = Some k \<and> p_uid (sk_user k) = u"
  proof (cases "u = p_uid user")
    case True
    with us show ?thesis by (simp add: on_connection_def)
  next
    case False
    with us have "userSockets st u = Some s" by (simp add: on_connection_def)
    from inv_socketD [OF assms(1) this] obtain k where k: "sockets st s = Some k" "p_uid (sk_user k) = u"
      by blast
    with assms(2) have "s \<noteq> sid" by auto
    with k show ?thesis by (simp add: on_connection_def)
  qed
qed

lemma reachable_inv: "reachable st \<Longrightarrow> registry_inv st"
proof (induction rule: reachable.induct)
  case (start d)
  show ?case by (simp add: registry_inv_def initial_server_def room_set_def)
next
  case (connection st sid user)
  then show ?case by (simp add: inv_connection)
next
  case (join_room st now sid roomId)
  then show ?case by (simp add: inv_after_join)
next
  case (leave_begins st sid)
  then show ?case by (simp add: inv_leave_start)
next
  case (leave_resumes st now sid roomId)
  then show ?case by (simp add: inv_leave_resume)
next
  case (disconnect_begins st sid)
  then show ?case by (simp add: inv_disconnect_start)
next
  case (store_change st d)
  then show ?case by (simp add: inv_store)
qed

text \<open>
  A leave and a disconnect whose continuation runs at once lead from a state of the server to
  a state of the server.
\<close>

lemma reachable_leave: "reachable st \<Longrightarrow> reachable (after_leave now sid st)"
proof -
  assume r: "reachable st"
  obtain pending st' where ls: "leave_start sid st = (pending, st')"
    by (cases "leave_start sid st")
  with reachable.leave_begins [OF r, of sid] have r': "reachable st'" by simp
  show ?thesis
  proof (cases pending)
    case None
    with ls r' show ?thesis by (simp add: after_leave_def handleUserLeaveRoom_def)
  next
    case (Some roomId)
    with ls reachable.leave_resumes [OF r', of now sid roomId] show ?thesis
      by (simp add: after_leave_def handleUserLeaveRoom_def)
  qed
qed

lemma reachable_disconnect: "reachable st \<Longrightarrow> reachable (fst (on_disconnect now sid st))"
proof -
  assume r: "reachable st"
  obtain pending st' where ds: "disconnect_start sid st = (pending, st')"
    by (cases "disconnect_start sid st")
  with reachable.disconnect_begins [OF r, of sid] have r': "reachable st'" by simp
  show ?thesis
  proof (cases pending)
    case None
    with ds r' show ?thesis by (simp add: on_disconnect_def)
  next
    case (Some roomId)
    with ds reachable.leave_resumes [OF r', of now sid roomId] show ?thesis
      by (simp add: on_disconnect_def)
  qed
qed

lemma one_tab_reachable: "reachable one_tab_server"
  unfolding one_tab_server_def
  by (rule reachable.connection [OF reachable.start]) (simp add: initial_server_def)

lemma two_tabs_reachable: "reachable two_tabs_server"
  unfolding two_tabs_server_def
  by (intro reachable_disconnect reachable.connection reachable.start)
     (simp_all add: initial_server_def on_connection_def)

text \<open>
  What holds of the claim.  Let the server be in a reachable state, \<open>sid\<close> a connected socket
  of the principal with uid \<open>uid\<close>, \<open>R\<close> an active room (with a non-empty id), and let
  \<^verbatim>\<open>userSockets\<close> hold a socket for \<open>uid\<close>.  Then, for joins and leaves during which no
  other event is handled: after the socket joins \<open>R\<close> the online list of \<open>R\<close> has exactly
  one entry for \<open>uid\<close>, also when it joins twice; after the leave it has none and \<open>uid\<close> is
  out of the room's Set; the leave emits one event, and a second leave changes nothing and
  emits nothing.
\<close>

lemma presence_without_overlap:
  assumes "reachable st"
    and "sockets st sid = Some sk" and "p_uid (sk_user sk) = uid"
    and "R \<noteq> []" and "find_active_room (store st) R \<noteq> None"
    and "userSockets st uid \<noteq> None"
  shows "online_count (after_join now sid R st) t R uid = Some 1 \<and>
         online_count (after_join now2 sid R (after_join now sid R st)) t R uid = Some 1 \<and>
         online_count (after_leave now3 sid (after_join now sid R st)) t R uid = Some 0 \<and>
         uid \<notin> set (room_set (after_leave now3 sid (after_join now sid R st)) R) \<and>
         length (snd (handleUserLeaveRoom now3 sid (after_join now sid R st))) = 1 \<and>
         handleUserLeaveRoom now4 sid (after_leave now3 sid (after_join now sid R st)) =
           (after_leave now3 sid (after_join now sid R st), [])"
proof -
  note inv = registry_inv_ok [OF reachable_inv [OF assms(1)]]
  note j1 = join_step [OF assms(2,3,5) inv(3) [OF assms(6)] inv(2) inv(1), where now = now]
  have u1: "p_uid (sk_user (sk\<lparr>sk_rooms := set_add R (sk_rooms sk), sk_currentRoom := Some R\<rparr>)) = uid"
    using assms(3) by simp
  note j2 = join_step [OF j1(1) u1 j1(2) j1(3) j1(4) j1(5), where now = now2]
  have c1: "sk_currentRoom (sk\<lparr>sk_rooms := set_add R (sk_rooms sk), sk_currentRoom := Some R\<rparr>) = Some R"
    by simp
  note l1 = leave_step [OF j1(1) u1 c1 assms(4) j1(2) j1(5), where now = now3]
  from l1(3) obtain l where
    "snd (handleUserLeaveRoom now3 sid (after_join now sid R st)) =
       [(ToRoomExcept R sid, UserLeft uid (p_nickname (sk_user
          (sk\<lparr>sk_rooms := set_add R (sk_rooms sk), sk_currentRoom := Some R\<rparr>))) l)]" ..
  then have len: "length (snd (handleUserLeaveRoom now3 sid (after_join now sid R st))) = 1"
    by simp
  have out: "uid \<notin> set (room_set (after_leave now3 sid (after_join now sid R st)) R)"
    by (simp add: l1(1) set_delete_props)
  show ?thesis
    using j1(7) [of t] j2(7) [of t] l1(2) [of t] out len l1(4) [of now4] by simp
qed

text \<open>
  A socket that joins a second room is not taken out of the first: the \<^verbatim>\<open>join-room\<close>
  handler overwrites \<^verbatim>\<open>socket.currentRoom\<close>, and the leave that follows is a leave of the
  second room only.  The creator of the two example rooms joins \<open>ABCD1234\<close>, then
  \<open>5EC2E701\<close>, and leaves: the online list of \<open>ABCD1234\<close> still has the entry.
\<close>

lemma join_second_room_keeps_first:
  "online_count
     (after_leave 3000 1 (after_join 2000 1 ''5EC2E701'' (after_join 1000 1 ''ABCD1234''
        (on_connection 1 owner (initial_server pw_db)))))
     4000 ''ABCD1234'' ''10000001'' = Some 1"
  by (simp add: online_count_def after_join_def after_leave_def owner_def pw_db_def pw_room_def
      presence_defs ex_defs Let_def admin_defs mute_defs truthy_str_def)

text \<open>
  Claim C7 fails on the code, in two ways.

  The online list after a join can lack the joiner.  \<^verbatim>\<open>userSockets\<close> is keyed by uid and
  the \<^verbatim>\<open>disconnect\<close> handler deletes the entry of the uid whichever socket closes, while
  \<^verbatim>\<open>getOnlineUserList\<close> skips a uid without an entry.  A user with two connections closes the
  first and joins the room with the second (socket 2 of \<open>two_tabs_server\<close>): the join
  succeeds, and the list it sends, which the handler fetches after adding the user, does not
  contain the user.

  A second leave is not always a no-op.  The leave tests \<^verbatim>\<open>socket.currentRoom\<close> before its
  first \<^verbatim>\<open>await\<close> and clears it at its end.  When the \<^verbatim>\<open>leave-room\<close> event of a socket is
  followed by its \<^verbatim>\<open>disconnect\<close> event before the first leave has gone on
  (\<open>closing_server\<close>), both leaves pass the test and each of the two continuations
  broadcasts a \<^verbatim>\<open>user-left\<close> event.
\<close>

theorem presence_defects:
  "sockets two_tabs_server 2 = Some \<lparr>sk_user = owner, sk_currentRoom = None, sk_rooms = []\<rparr> \<and>
   find_active_room (store two_tabs_server) ''ABCD1234'' = Some ex_room \<and>
   snd (on_join_room 2000 2 ''ABCD1234'' two_tabs_server) =
     [(ToRoomExcept ''ABCD1234'' 2, UserJoined owner []),
      (ToSocket 2, RoomJoined ''ABCD1234''
         \<lparr>ri_roomId = ''ABCD1234'', ri_name = ''lobby'', ri_creatorUid = ''10000001'',
          ri_createdAt = 0, ri_isOwner = None, ri_userCount = Some 0\<rparr> [])] \<and>
   online_count (after_join 2000 2 ''ABCD1234'' two_tabs_server) 2000 ''ABCD1234'' ''10000001''
     = Some 0 \<and>
   fst (leave_start 1 joined_server) = Some ''ABCD1234'' \<and>
   fst (disconnect_start 1 (snd (leave_start 1 joined_server))) = Some ''ABCD1234'' \<and>
   snd (leave_resume 3000 1 ''ABCD1234'' closing_server) =
     [(ToRoomExcept ''ABCD1234'' 1, UserLeft ''10000001'' ''owner'' [])] \<and>
   snd (leave_resume 3001 1 ''ABCD1234'' (fst (leave_resume 3000 1 ''ABCD1234'' closing_server))) =
     [(ToRoomExcept ''ABCD1234'' 1, UserLeft ''10000001'' ''owner'' [])]"
  by (simp add: two_tabs_server_def joined_server_def closing_server_def one_tab_server_def
      owner_def presence_defs ex_defs online_count_def after_join_def Let_def admin_defs
      mute_defs truthy_str_def setMemberOffline_def leave_state_def)

end
